theory Spec2Isabelle
  imports Complex_Main
begin

section \<open>Errors raised by the Python code\<close>

text \<open>
  Every exception the modelled code can raise is a value of \<open>error\<close>; a function that can
  raise returns \<open>error + 'a\<close> with \<open>Inl\<close> for the exception.
\<close>

datatype error =
    KeyError string
  | WrongInputException string
  | ValueError
  | IndexError
  | ZeroDivisionError
  | AttributeError
  | StopIteration
  | InvalidArgumentError
  | TypeError
  | LoadError

section \<open>tfrecords/tfrecord_writer.py\<close>

subsection \<open>image_reader\<close>

text \<open>
  An image is the list of its pixel rows (axis 0 of the numpy array); the slices of
  \<open>image_reader\<close> cut along that axis only, so a row is left abstract.
  \<open>py_slice a b xs\<close> is Python's \<open>xs[a:b]\<close> for non-negative bounds.
  \<open>cv2.imread\<close> returns \<open>None\<close> for a file it cannot read, and \<open>image.shape\<close> then
  raises \<open>AttributeError\<close>. The first argument is \<open>opts.SNIPPET_LEN\<close>.
\<close>

definition py_slice :: "nat \<Rightarrow> nat \<Rightarrow> 'a list \<Rightarrow> 'a list" where
  "py_slice a b xs = take (b - a) (drop a xs)"

definition image_reader :: "nat \<Rightarrow> 'row list option \<Rightarrow> error + 'row list" where
  "image_reader snippet_len imread =
     (case imread of
        None \<Rightarrow> Inl AttributeError
      | Some img \<Rightarrow>
          if snippet_len = 0 then Inl ZeroDivisionError
          else
            let height = length img div snippet_len;
                half_len = snippet_len div 2;
                src_up = take (height * half_len) img;
                target = py_slice (height * half_len) (height * (half_len + 1)) img;
                src_dw = drop (height * (half_len + 1)) img
            in Inr (src_up @ src_dw @ target))"

subsection \<open>TfrecordMaker.make\<close>

text \<open>
  Modelled from the spec: \<open>tfrecords.data_feeders.NpyFeeder\<close> is not among the source
  files. A feeder is taken to be a cursor over the files it was built from: \<open>len\<close> is the
  number of files, \<open>get_next\<close> returns the entry under the cursor and advances it, and
  raises \<open>StopIteration\<close> past the end.
\<close>

record 'a feeder =
  files :: "'a list"
  idx :: nat

definition len_feeder :: "'a feeder \<Rightarrow> nat" where
  "len_feeder f = length (files f)"

definition get_next :: "'a feeder \<Rightarrow> error + ('a \<times> 'a feeder)" where
  "get_next f =
     (if idx f < length (files f) then Inr (files f ! idx f, f\<lparr>idx := idx f + 1\<rparr>)
      else Inl StopIteration)"

text \<open>
  \<open>data_feeders\<close> is a dict from a key to a feeder, kept as an association list in
  insertion order (\<open>image\<close>, \<open>intrinsic\<close>, then \<open>depth\<close> and \<open>pose\<close> when available).
  \<open>create_next_example_dict\<close> asks every feeder for its next entry.
\<close>

type_synonym 'a feeders = "(string \<times> 'a feeder) list"
type_synonym 'a example = "(string \<times> 'a) list"

fun create_next_example_dict :: "'a feeders \<Rightarrow> error + ('a example \<times> 'a feeders)" where
  "create_next_example_dict [] = Inr ([], [])"
| "create_next_example_dict ((key, fd) # rest) =
     (case get_next fd of
        Inl e \<Rightarrow> Inl e
      | Inr (v, fd') \<Rightarrow>
          (case create_next_example_dict rest of
             Inl e \<Rightarrow> Inl e
           | Inr (ex, rest') \<Rightarrow> Inr ((key, v) # ex, (key, fd') # rest')))"

text \<open>
  The inner loop \<open>for fi in range(si*num_images_per_shard, (si+1)*num_images_per_shard)\<close>
  writes one serialized example per iteration to the shard's writer; the loop variable is
  used for the progress display only. The function takes the list of the values \<open>fi\<close>
  still to come, the feeders and the records written so far.
\<close>

fun write_shard ::
  "('a example \<Rightarrow> 'r) \<Rightarrow> nat list \<Rightarrow> 'a feeders \<Rightarrow> 'r list \<Rightarrow> error + ('r list \<times> 'a feeders)" where
  "write_shard ser [] fds written = Inr (written, fds)"
| "write_shard ser (fi # fis) fds written =
     (case create_next_example_dict fds of
        Inl e \<Rightarrow> Inl e
      | Inr (raw_example, fds') \<Rightarrow> write_shard ser fis fds' (written @ [ser raw_example]))"

text \<open>
  The outer loop \<open>for si in range(num_shards)\<close>: each iteration opens the file of shard
  \<open>si\<close> and fills it. A shard file is the pair of its number \<open>si\<close> (the source formats
  it into the file name) and the records written to it.
\<close>

fun write_shards ::
  "('a example \<Rightarrow> 'r) \<Rightarrow> nat \<Rightarrow> nat list \<Rightarrow> 'a feeders \<Rightarrow> (nat \<times> 'r list) list
     \<Rightarrow> error + (nat \<times> 'r list) list" where
  "write_shards ser per_shard [] fds out = Inr out"
| "write_shards ser per_shard (si # sis) fds out =
     (case write_shard ser [si * per_shard ..< (si + 1) * per_shard] fds [] of
        Inl e \<Rightarrow> Inl e
      | Inr (recs, fds') \<Rightarrow> write_shards ser per_shard sis fds' (out @ [(si, recs)]))"

text \<open>
  \<open>make\<close> receives the result of \<open>create_feeders\<close>: a \<open>ValueError\<close> is caught, printed,
  and \<open>make\<close> returns having written nothing; any other exception propagates.
  \<open>data_feeders["image"]\<close> raises \<open>KeyError\<close> when the key is absent.
\<close>

definition TfrecordMaker_make ::
  "('a example \<Rightarrow> 'r) \<Rightarrow> error + 'a feeders \<Rightarrow> error + (nat \<times> 'r list) list" where
  "TfrecordMaker_make ser created =
     (case created of
        Inl ValueError \<Rightarrow> Inr []
      | Inl e \<Rightarrow> Inl e
      | Inr data_feeders \<Rightarrow>
          (case map_of data_feeders ''image'' of
             None \<Rightarrow> Inl (KeyError ''image'')
           | Some image_feeder \<Rightarrow>
               let num_images = len_feeder image_feeder;
                   num_shards = max (min (num_images div 2000) 10) 1;
                   num_images_per_shard = num_images div num_shards
               in write_shards ser num_images_per_shard [0 ..< num_shards] data_feeders []))"

text \<open>The entry number \<open>i\<close> of every feeder, as the example dict built from it.\<close>

definition example_at :: "'a feeders \<Rightarrow> nat \<Rightarrow> 'a example" where
  "example_at fds i = map (\<lambda>(key, fd). (key, files fd ! i)) fds"

definition fresh_feeders :: "nat \<Rightarrow> 'a feeders \<Rightarrow> bool" where
  "fresh_feeders n fds = list_all (\<lambda>(key, fd). idx fd = 0 \<and> length (files fd) = n) fds"

definition advance :: "nat \<Rightarrow> 'a feeders \<Rightarrow> 'a feeders" where
  "advance k fds = map (\<lambda>(key, fd). (key, fd\<lparr>idx := idx fd + k\<rparr>)) fds"

section \<open>Tensors\<close>

text \<open>
  A tensor is the nested list of its entries, outermost axis first; float32 entries are
  taken as real numbers, so rounding is not part of the model. The functions below are
  meant for tensors of the shapes their docstrings give (\<open>shape2\<close> to \<open>shape5\<close> say that
  a nested list is rectangular with the given extents).
\<close>

type_synonym tensor3 = "real list list list"
type_synonym tensor4 = "real list list list list"
type_synonym tensor5 = "real list list list list list"

definition shape2 :: "nat \<Rightarrow> nat \<Rightarrow> 'a list list \<Rightarrow> bool" where
  "shape2 n1 n2 t = (length t = n1 \<and> list_all (\<lambda>x. length x = n2) t)"

definition shape3 :: "nat \<Rightarrow> nat \<Rightarrow> nat \<Rightarrow> 'a list list list \<Rightarrow> bool" where
  "shape3 n1 n2 n3 t = (length t = n1 \<and> list_all (shape2 n2 n3) t)"

definition shape4 :: "nat \<Rightarrow> nat \<Rightarrow> nat \<Rightarrow> nat \<Rightarrow> 'a list list list list \<Rightarrow> bool" where
  "shape4 n1 n2 n3 n4 t = (length t = n1 \<and> list_all (shape3 n2 n3 n4) t)"

definition shape5 :: "nat \<Rightarrow> nat \<Rightarrow> nat \<Rightarrow> nat \<Rightarrow> nat \<Rightarrow> 'a list list list list list \<Rightarrow> bool" where
  "shape5 n1 n2 n3 n4 n5 t = (length t = n1 \<and> list_all (shape4 n2 n3 n4 n5) t)"

text \<open>
  \<open>tf.reduce_mean\<close> over all entries of a list of numbers: their sum over their number.
  (Over no entries TensorFlow returns NaN; the properties below are stated for tensors
  that have entries.)
\<close>

definition reduce_mean :: "real list \<Rightarrow> real" where
  "reduce_mean xs = sum_list xs / real (length xs)"

definition entries4 :: "'a list list list list \<Rightarrow> 'a list" where
  "entries4 t = concat (concat (concat t))"

section \<open>model/loss_and_metric/loss_util.py\<close>

text \<open>
  \<open>photometric_loss_l1\<close>, at one pixel of one source image: \<open>synt\<close> and \<open>orig\<close> are the
  channel vectors of the synthesized and the original target there. The mask is the
  comparison of the channel mean with 0; \<open>tf.where\<close> broadcasts it over the channels.
\<close>

definition l1_pixel :: "real list \<Rightarrow> real list \<Rightarrow> real list" where
  "l1_pixel synt orig =
     (let synt_target_gray = reduce_mean synt;
          error_mask = (synt_target_gray = 0);
          photo_error = map2 (\<lambda>a b. \<bar>a - b\<bar>) synt orig
      in if error_mask then map (\<lambda>_. 0) photo_error else photo_error)"

text \<open>
  The whole tensors: \<open>synt_target\<close> is \<open>[batch, numsrc, height, width, 3]\<close>,
  \<open>orig_target\<close> is \<open>[batch, height, width, 3]\<close> and is broadcast along the source axis.
  \<open>photometric_error_l1\<close> is the value before the reduction (\<open>reduce=False\<close>),
  \<open>photometric_loss_l1\<close> the one after it (\<open>reduce=True\<close>): \<open>tf.reduce_mean\<close> over the
  axes 1 to 4 leaves one number per example.
\<close>

definition photometric_error_l1 :: "tensor5 \<Rightarrow> tensor4 \<Rightarrow> tensor5" where
  "photometric_error_l1 synt_target orig_target =
     map2 (\<lambda>synt_ex orig_ex. map (\<lambda>synt_img. map2 (map2 l1_pixel) synt_img orig_ex) synt_ex)
       synt_target orig_target"

definition photometric_loss_l1 :: "tensor5 \<Rightarrow> tensor4 \<Rightarrow> real list" where
  "photometric_loss_l1 synt_target orig_target =
     map (\<lambda>photo_error. reduce_mean (entries4 photo_error))
       (photometric_error_l1 synt_target orig_target)"

text \<open>
  The reading of the specification (``excluded from the pixel count used for averaging''):
  the mean of the absolute errors over the pixels that are not masked only.
\<close>

definition unmasked_pixels :: "real list list list list \<Rightarrow> real list list list \<Rightarrow> (real list \<times> real list) list" where
  "unmasked_pixels synt_ex orig_ex =
     filter (\<lambda>(synt, orig). reduce_mean synt \<noteq> 0)
       (concat (map (\<lambda>synt_img. concat (map2 zip synt_img orig_ex)) synt_ex))"

definition l1_mean_over_unmasked :: "tensor5 \<Rightarrow> tensor4 \<Rightarrow> real list" where
  "l1_mean_over_unmasked synt_target orig_target =
     map2 (\<lambda>synt_ex orig_ex.
             reduce_mean (concat (map (\<lambda>(synt, orig). map2 (\<lambda>a b. \<bar>a - b\<bar>) synt orig)
                                      (unmasked_pixels synt_ex orig_ex))))
       synt_target orig_target"

text \<open>
  The model compares the exact channel mean with zero, the code the float32 one, which
  can also vanish by cancellation or underflow. \<open>mask_exact\<close> names pixels on which the
  two agree: every channel is zero, or lies between \<open>2^-100\<close> and \<open>2^100\<close>; the float32
  mean of three such channels is zero only when every channel is.
\<close>

definition mask_exact :: "real list \<Rightarrow> bool" where
  "mask_exact px = list_all (\<lambda>x. x = 0 \<or> (1 / 2 ^ 100 \<le> x \<and> x \<le> 2 ^ 100)) px"

section \<open>model/synthesize/synthesize_base.py\<close>

subsection \<open>SynthesizeBatchBasic.scale_intrinsic\<close>

text \<open>
  \<open>batch\<close> is \<open>self.batch\<close>, set by \<open>read_shape\<close> from the depth map. \<open>tf.slice\<close>
  takes the first two rows of every matrix, \<open>tf.tile\<close> makes \<open>batch\<close> copies of the row
  \<open>[0, 0, 1]\<close>, and \<open>tf.concat\<close> along axis 1 raises when the batch sizes or the numbers
  of columns differ.
\<close>

definition scale_intrinsic :: "nat \<Rightarrow> tensor3 \<Rightarrow> real \<Rightarrow> error + tensor3" where
  "scale_intrinsic batch intrinsic scale =
     (if \<not> list_all (\<lambda>K. 2 \<le> length K) intrinsic then Inl InvalidArgumentError
      else
        let scaled_part = map (take 2) intrinsic;
            scaled_part = map (map (map (\<lambda>x. x / scale))) scaled_part;
            const_part = replicate batch [[0, 0, 1]]
        in if length scaled_part = batch \<and> list_all (list_all (\<lambda>row. length row = 3)) scaled_part
           then Inr (map2 (@) scaled_part const_part)
           else Inl InvalidArgumentError)"

subsection \<open>SynthesizeBatchBasic.cam2pixel\<close>

text \<open>
  The product of a matrix with the matrix whose columns are the points.
\<close>

definition mat_mul :: "real list list \<Rightarrow> real list list \<Rightarrow> real list list" where
  "mat_mul A B = map (\<lambda>row. map (\<lambda>col. sum_list (map2 (*) row col)) (transpose B)) A"

text \<open>
  A float32 division by zero gives an infinity or NaN, which is no number: \<open>None\<close>.
  For another divisor the result is written as the exact quotient; its rounding, and its
  overflow to an infinity, are not modelled, so \<open>Some\<close> does not say that the float32
  result is finite.
\<close>

definition fdiv :: "real \<Rightarrow> real \<Rightarrow> real option" where
  "fdiv a b = (if b = 0 then None else Some (a / b))"

text \<open>
  The constant \<open>1e-10\<close> of the source as the float32 number it is added as.
\<close>

definition eps32 :: real where
  "eps32 = 14411519 / 2 ^ 57"

text \<open>
  One pair of a batch element and a source frame: \<open>K\<close> is the intrinsic matrix and
  \<open>cam\<close> the matrix of the points \<open>(x, y, z, 1)\<close>, one per column. \<open>tf.slice\<close> needs
  three rows of \<open>cam\<close> and \<open>tf.matmul\<close> three columns of \<open>K\<close>. \<open>pixel_scales\<close> is the
  slice \<open>2:3\<close> of the rows of the product, and the division broadcasts it over the rows
  (an empty slice broadcasts with at most one row, to no row).
\<close>

definition cam2pixel_one :: "real list list \<Rightarrow> real list list \<Rightarrow> error + real option list list" where
  "cam2pixel_one K cam =
     (if length cam < 3 \<or> \<not> list_all (\<lambda>row. length row = 3) K then Inl InvalidArgumentError
      else
        let point_coords = take 3 cam;
            pixel_coords = mat_mul K point_coords;
            pixel_scales = py_slice 2 3 pixel_coords
        in (case pixel_scales of
              [zs] \<Rightarrow> Inr (map (\<lambda>row. map2 fdiv row (map (\<lambda>z. z + eps32) zs)) pixel_coords)
            | _ \<Rightarrow> if length pixel_coords \<le> 1 then Inr [] else Inl InvalidArgumentError))"

text \<open>
  The leading axes of a batched \<open>tf.matmul\<close>: equal extents are paired, an extent of one
  is broadcast, other extents raise. \<open>collect\<close> gathers the results of the pairs and
  passes on the first exception.
\<close>

definition broadcast_zip :: "'a list \<Rightarrow> 'b list \<Rightarrow> error + ('a \<times> 'b) list" where
  "broadcast_zip xs ys =
     (if length xs = length ys then Inr (zip xs ys)
      else (case xs of
              [x] \<Rightarrow> Inr (map (\<lambda>y. (x, y)) ys)
            | _ \<Rightarrow> (case ys of
                       [y] \<Rightarrow> Inr (map (\<lambda>x. (x, y)) xs)
                     | _ \<Rightarrow> Inl InvalidArgumentError)))"

fun collect :: "(error + 'a) list \<Rightarrow> error + 'a list" where
  "collect [] = Inr []"
| "collect (r # rs) =
     (case r of
        Inl e \<Rightarrow> Inl e
      | Inr v \<Rightarrow> (case collect rs of Inl e \<Rightarrow> Inl e | Inr vs \<Rightarrow> Inr (v # vs)))"

text \<open>
  \<open>cam_coords\<close> is \<open>[batch, num_src, 4, n]\<close> and \<open>intrinsic\<close> is \<open>[batch, 3, 3]\<close>;
  \<open>num_src\<close> is \<open>self.num_src\<close>. The intrinsic matrix of a batch element is tiled over
  its source frames.
\<close>

definition cam2pixel ::
  "nat \<Rightarrow> real list list list list \<Rightarrow> tensor3 \<Rightarrow> error + real option list list list list" where
  "cam2pixel num_src cam_coords intrinsic =
     (let intrinsic_expand = map (replicate num_src) intrinsic
      in case broadcast_zip intrinsic_expand cam_coords of
           Inl e \<Rightarrow> Inl e
         | Inr per_batch \<Rightarrow>
             collect (map (\<lambda>(Ks, cams).
                        case broadcast_zip Ks cams of
                          Inl e \<Rightarrow> Inl e
                        | Inr per_src \<Rightarrow> collect (map (\<lambda>(K, cam). cam2pixel_one K cam) per_src))
                      per_batch))"


section \<open>model/loss_and_metric/losses.py\<close>

subsection \<open>Dictionaries of tensors\<close>

text \<open>
  \<open>features\<close>, \<open>predictions\<close> and \<open>augm_data\<close> are dicts from a key to a tensor or to a
  list of tensors, one per scale. \<open>d[key]\<close> raises \<open>KeyError\<close> for a key that is absent.
  An entry of another kind than the docstrings give is reported as \<open>TypeError\<close>.
\<close>

datatype pyval =
    Tensor3 tensor3
  | Tensor4 tensor4
  | Tensor5 tensor5
  | TensorList4 "tensor4 list"
  | TensorList5 "tensor5 list"

type_synonym dict = "string \<Rightarrow> pyval option"

definition getitem :: "dict \<Rightarrow> string \<Rightarrow> error + pyval" where
  "getitem d key = (case d key of None \<Rightarrow> Inl (KeyError key) | Some v \<Rightarrow> Inr v)"

text \<open>A loss calculator is called with \<open>(features, predictions, augm_data)\<close>.\<close>

type_synonym loss_term = "dict \<Rightarrow> dict \<Rightarrow> dict \<Rightarrow> error + real"

subsection \<open>Functions that are not among the source files\<close>

text \<open>
  Modelled from the spec: the helpers of \<open>utils.util_funcs\<close>, the flow warper, the SSIM
  loss's pooling layer and the sampler and pose conversion behind \<open>SynthesizeMultiScale\<close>
  are not modelled; the loss assembly takes them as parameters, each a function from its
  arguments to its result or to the exception it raises.
\<close>

record externals =
  split_into_source_and_target :: "pyval \<Rightarrow> error + (pyval \<times> pyval)"
  multi_scale_like_depth :: "pyval \<Rightarrow> pyval \<Rightarrow> error + pyval"
  multi_scale_like_flow :: "pyval \<Rightarrow> pyval \<Rightarrow> error + pyval"
  SynthesizeMultiScale :: "pyval \<Rightarrow> pyval \<Rightarrow> pyval \<Rightarrow> pyval \<Rightarrow> error + pyval"
  FlowWarpMultiScale :: "pyval \<Rightarrow> pyval \<Rightarrow> error + pyval"
  photometric_loss_ssim :: "tensor5 \<Rightarrow> tensor4 \<Rightarrow> real list"

subsection \<open>TotalLoss\<close>

definition augment_data :: "externals \<Rightarrow> dict \<Rightarrow> dict \<Rightarrow> string \<Rightarrow> error + dict" where
  "augment_data ext features predictions suffix =
     (case getitem predictions (''depth_ms'' @ suffix) of Inl e \<Rightarrow> Inl e | Inr pred_depth_ms \<Rightarrow>
      case getitem predictions (''pose'' @ suffix) of Inl e \<Rightarrow> Inl e | Inr pred_pose \<Rightarrow>
      case getitem features (''image'' @ suffix) of Inl e \<Rightarrow> Inl e | Inr stacked_image \<Rightarrow>
      case getitem features (''intrinsic'' @ suffix) of Inl e \<Rightarrow> Inl e | Inr intrinsic \<Rightarrow>
      case split_into_source_and_target ext stacked_image of Inl e \<Rightarrow> Inl e
      | Inr (source_image, target_image) \<Rightarrow>
      case multi_scale_like_depth ext target_image pred_depth_ms of Inl e \<Rightarrow> Inl e
      | Inr target_ms \<Rightarrow>
      case SynthesizeMultiScale ext source_image intrinsic pred_depth_ms pred_pose of Inl e \<Rightarrow> Inl e
      | Inr synth_target_ms \<Rightarrow>
        let augm_data = Map.empty
              (''source'' @ suffix \<mapsto> source_image,
               ''target'' @ suffix \<mapsto> target_image,
               ''target_ms'' @ suffix \<mapsto> target_ms,
               ''synth_target_ms'' @ suffix \<mapsto> synth_target_ms)
        in (case predictions (''flow_ms'' @ suffix) of
              None \<Rightarrow> Inr augm_data
            | Some pred_flow_ms \<Rightarrow>
                case multi_scale_like_flow ext target_image pred_flow_ms of Inl e \<Rightarrow> Inl e
                | Inr flow_target_ms \<Rightarrow>
                case FlowWarpMultiScale ext source_image pred_flow_ms of Inl e \<Rightarrow> Inl e
                | Inr warped_target_ms \<Rightarrow>
                  Inr (augm_data
                        (''flow_target_ms'' @ suffix \<mapsto> flow_target_ms,
                         ''warped_target_ms'' @ suffix \<mapsto> warped_target_ms))))"

text \<open>
  The first lines of \<open>TotalLoss.__call__\<close>: the data of the left camera and, when
  \<open>self.stereo\<close> is set, the data of the right one merged into it by \<open>dict.update\<close>.
\<close>

definition augmented :: "externals \<Rightarrow> bool \<Rightarrow> dict \<Rightarrow> dict \<Rightarrow> error + dict" where
  "augmented ext stereo features predictions =
     (case augment_data ext features predictions [] of
        Inl e \<Rightarrow> Inl e
      | Inr augm_data \<Rightarrow>
          if stereo then
            (case augment_data ext features predictions ''_R'' of
               Inl e \<Rightarrow> Inl e
             | Inr augm_data_rig \<Rightarrow> Inr (augm_data ++ augm_data_rig))
          else Inr augm_data)"

text \<open>
  The loop \<open>for calc_loss, weight in zip(self.calc_losses, self.loss_weights)\<close>, with the
  list \<open>losses\<close> it appends to; an exception of a calculator ends the call.
\<close>

fun weighted_losses ::
  "(loss_term \<times> real) list \<Rightarrow> dict \<Rightarrow> dict \<Rightarrow> dict \<Rightarrow> real list \<Rightarrow> error + real list" where
  "weighted_losses [] features predictions augm_data losses = Inr losses"
| "weighted_losses ((calc_loss, weight) # rest) features predictions augm_data losses =
     (case calc_loss features predictions augm_data of
        Inl e \<Rightarrow> Inl e
      | Inr loss \<Rightarrow>
          weighted_losses rest features predictions augm_data (losses @ [loss * weight]))"

text \<open>
  \<open>TotalLoss.__call__\<close> returns the pair of \<open>total_loss\<close>, the \<open>tf.reduce_sum\<close> of the
  stacked losses, and \<open>losses\<close>.
\<close>

definition TotalLoss_call ::
  "externals \<Rightarrow> loss_term list \<Rightarrow> real list \<Rightarrow> bool \<Rightarrow> dict \<Rightarrow> dict \<Rightarrow> error + (real \<times> real list)" where
  "TotalLoss_call ext calc_losses loss_weights stereo predictions features =
     (case augmented ext stereo features predictions of
        Inl e \<Rightarrow> Inl e
      | Inr augm_data \<Rightarrow>
          (case weighted_losses (zip calc_losses loss_weights) features predictions augm_data [] of
             Inl e \<Rightarrow> Inl e
           | Inr losses \<Rightarrow> Inr (sum_list losses, losses)))"

subsection \<open>PhotometricLoss and its multi-scale subclasses\<close>

datatype photo_method = L1 | SSIM

record PhotometricLoss =
  photometric_loss :: photo_method
  key_suffix :: string

text \<open>
  \<open>PhotometricLoss.__init__\<close>, which the constructors of \<open>PhotometricLossMultiScale\<close>,
  \<open>StereoDepthLoss\<close> and \<open>FlowWarpLossMultiScale\<close> call first.
\<close>

definition PhotometricLoss_init :: "string \<Rightarrow> string \<Rightarrow> error + PhotometricLoss" where
  "PhotometricLoss_init method suffix =
     (if method = ''L1'' then Inr \<lparr>photometric_loss = L1, key_suffix = suffix\<rparr>
      else if method = ''SSIM'' then Inr \<lparr>photometric_loss = SSIM, key_suffix = suffix\<rparr>
      else Inl (WrongInputException (''Wrong photometric loss name: '' @ method)))"

definition apply_photometric_loss :: "externals \<Rightarrow> photo_method \<Rightarrow> tensor5 \<Rightarrow> tensor4 \<Rightarrow> real list" where
  "apply_photometric_loss ext m synt_target orig_target =
     (case m of
        L1 \<Rightarrow> photometric_loss_l1 synt_target orig_target
      | SSIM \<Rightarrow> photometric_loss_ssim ext synt_target orig_target)"

text \<open>
  The loop over the scales of \<open>PhotometricLossMultiScale.__call__\<close> and of
  \<open>FlowWarpLossMultiScale.__call__\<close>: one loss vector per scale; \<open>tf.reduce_sum\<close> then
  adds all their entries.
\<close>

definition photometric_sum :: "externals \<Rightarrow> photo_method \<Rightarrow> pyval \<Rightarrow> pyval \<Rightarrow> error + real" where
  "photometric_sum ext m synth_ms orig_ms =
     (case (synth_ms, orig_ms) of
        (TensorList5 synth_target_ms, TensorList4 original_target_ms) \<Rightarrow>
          let losses = map (\<lambda>(synt_target, orig_target). apply_photometric_loss ext m synt_target orig_target)
                         (zip synth_target_ms original_target_ms)
          in Inr (sum_list (concat losses))
      | _ \<Rightarrow> Inl TypeError)"

definition PhotometricLossMultiScale_call :: "externals \<Rightarrow> PhotometricLoss \<Rightarrow> loss_term" where
  "PhotometricLossMultiScale_call ext self features predictions augm_data =
     (case getitem augm_data (''target_ms'' @ key_suffix self) of Inl e \<Rightarrow> Inl e
      | Inr original_target_ms \<Rightarrow>
      case getitem augm_data (''synth_target_ms'' @ key_suffix self) of Inl e \<Rightarrow> Inl e
      | Inr synth_target_ms \<Rightarrow>
        photometric_sum ext (photometric_loss self) synth_target_ms original_target_ms)"

definition FlowWarpLossMultiScale_call :: "externals \<Rightarrow> PhotometricLoss \<Rightarrow> loss_term" where
  "FlowWarpLossMultiScale_call ext self features predictions augm_data =
     (case getitem augm_data (''flow_target_ms'' @ key_suffix self) of Inl e \<Rightarrow> Inl e
      | Inr flow_target_ms \<Rightarrow>
      case getitem augm_data (''warped_target_ms'' @ key_suffix self) of Inl e \<Rightarrow> Inl e
      | Inr warped_target_ms \<Rightarrow>
        photometric_sum ext (photometric_loss self) warped_target_ms flow_target_ms)"

subsection \<open>SmoothenessLossMultiScale\<close>

text \<open>
  \<open>gradient_x\<close> is \<open>img[:, :, :-1, :] - img[:, :, 1:, :]\<close> and \<open>gradient_y\<close> is
  \<open>img[:, :-1, :, :] - img[:, 1:, :, :]\<close>, on a tensor \<open>[batch, height, width, channels]\<close>.
\<close>

definition gradient_x :: "tensor4 \<Rightarrow> tensor4" where
  "gradient_x img = map (map (\<lambda>row. map2 (map2 (-)) (butlast row) (tl row))) img"

definition gradient_y :: "tensor4 \<Rightarrow> tensor4" where
  "gradient_y img = map (\<lambda>im. map2 (map2 (map2 (-))) (butlast im) (tl im)) img"

text \<open>
  \<open>tf.exp(-tf.reduce_mean(tf.abs(image_gradients), 3, keepdims=True))\<close>: one weight per
  pixel, from the mean over the channels of the absolute image gradient.
\<close>

definition edge_weights :: "tensor4 \<Rightarrow> tensor4" where
  "edge_weights image_gradients =
     map (map (map (\<lambda>px. [exp (- reduce_mean (map abs px))]))) image_gradients"

definition tensor_mul :: "tensor4 \<Rightarrow> tensor4 \<Rightarrow> tensor4" where
  "tensor_mul s t = map2 (map2 (map2 (map2 (*)))) s t"

definition smootheness_loss :: "tensor4 \<Rightarrow> tensor4 \<Rightarrow> real" where
  "smootheness_loss disp img =
     (let disp_gradients_x = gradient_x disp;
          disp_gradients_y = gradient_y disp;
          image_gradients_x = gradient_x img;
          image_gradients_y = gradient_y img;
          weights_x = edge_weights image_gradients_x;
          weights_y = edge_weights image_gradients_y;
          smoothness_x = tensor_mul disp_gradients_x weights_x;
          smoothness_y = tensor_mul disp_gradients_y weights_y;
          smoothness_x = 0.5 * reduce_mean (map abs (entries4 smoothness_x));
          smoothness_y = 0.5 * reduce_mean (map abs (entries4 smoothness_y));
          smoothness = smoothness_x + smoothness_y
      in smoothness)"

text \<open>
  \<open>get_shape().as_list()[2]\<close> of a tensor \<open>[batch, height, width, channels]\<close>, read off
  the first row of the first image (0 when there is none).
\<close>

definition width_of :: "tensor4 \<Rightarrow> nat" where
  "width_of t = (case t of [] \<Rightarrow> 0 | im # _ \<Rightarrow> (case im of [] \<Rightarrow> 0 | row # _ \<Rightarrow> length row))"

text \<open>
  The loop over the scales (\<open>suffix\<close> below is \<open>self.key_suffix\<close>):
  \<open>scale = orig_width / width\<close> is a division of Python
  integers, which raises \<open>ZeroDivisionError\<close> for a width of zero.
\<close>

fun smooth_losses :: "nat \<Rightarrow> (tensor4 \<times> tensor4) list \<Rightarrow> real list \<Rightarrow> error + real list" where
  "smooth_losses orig_width [] losses = Inr losses"
| "smooth_losses orig_width ((disp, img) # rest) losses =
     (if width_of img = 0 then Inl ZeroDivisionError
      else
        let scale = real orig_width / real (width_of img);
            loss = smootheness_loss disp img / scale
        in smooth_losses orig_width rest (losses @ [loss]))"

definition SmoothenessLossMultiScale_call :: "string \<Rightarrow> loss_term" where
  "SmoothenessLossMultiScale_call suffix features predictions augm_data =
     (case getitem predictions (''disp_ms'' @ suffix) of Inl e \<Rightarrow> Inl e
      | Inr pred_disp_ms \<Rightarrow>
      case getitem augm_data (''target_ms'' @ suffix) of Inl e \<Rightarrow> Inl e
      | Inr target_ms \<Rightarrow>
        (case (pred_disp_ms, target_ms) of
           (TensorList4 pred_disp_ms, TensorList4 target_ms) \<Rightarrow>
             (case target_ms of
                [] \<Rightarrow> Inl IndexError
              | t0 # _ \<Rightarrow>
                  let orig_width = width_of t0
                  in (case smooth_losses orig_width (zip pred_disp_ms target_ms) [] of
                        Inl e \<Rightarrow> Inl e
                      | Inr losses \<Rightarrow> Inr (sum_list losses)))
         | _ \<Rightarrow> Inl TypeError))"

text \<open>
  The smoothness of one scale written out entry by entry, following the specification:
  the absolute disparity gradient between horizontal (vertical) neighbours, weighted by
  \<open>exp\<close> of minus the absolute image gradient there (averaged over the channels),
  averaged over all neighbour pairs of the batch. \<open>disp\<close> is
  \<open>[B, H, W, 1]\<close> and \<open>img\<close> is \<open>[B, H, W, C]\<close>.
\<close>

definition smooth_x_entrywise :: "tensor4 \<Rightarrow> tensor4 \<Rightarrow> nat \<Rightarrow> nat \<Rightarrow> nat \<Rightarrow> nat \<Rightarrow> real" where
  "smooth_x_entrywise disp img B H W C =
     (\<Sum>b<B. \<Sum>i<H. \<Sum>j<W - 1.
        \<bar>(disp ! b ! i ! j ! 0 - disp ! b ! i ! (j + 1) ! 0)
          * exp (- ((\<Sum>c<C. \<bar>img ! b ! i ! j ! c - img ! b ! i ! (j + 1) ! c\<bar>) / real C))\<bar>)
     / real (B * H * (W - 1))"

definition smooth_y_entrywise :: "tensor4 \<Rightarrow> tensor4 \<Rightarrow> nat \<Rightarrow> nat \<Rightarrow> nat \<Rightarrow> nat \<Rightarrow> real" where
  "smooth_y_entrywise disp img B H W C =
     (\<Sum>b<B. \<Sum>i<H - 1. \<Sum>j<W.
        \<bar>(disp ! b ! i ! j ! 0 - disp ! b ! (i + 1) ! j ! 0)
          * exp (- ((\<Sum>c<C. \<bar>img ! b ! i ! j ! c - img ! b ! (i + 1) ! j ! c\<bar>) / real C))\<bar>)
     / real (B * (H - 1) * W)"


section \<open>model/build_model/model_wrappers.py\<close>

subsection \<open>ModelWrapper.load_weights\<close>

text \<open>
  \<open>os.path.join\<close> of a directory and a file name: a name that starts with a slash
  replaces the directory, and no slash is added after an empty directory or one that ends
  with a slash.
\<close>

definition op_join :: "string \<Rightarrow> string \<Rightarrow> string" where
  "op_join a b =
     (case b of
        [] \<Rightarrow> (if a = [] \<or> last a = CHR ''/'' then a else a @ ''/'')
      | c # _ \<Rightarrow>
          if c = CHR ''/'' then b
          else if a = [] \<or> last a = CHR ''/'' then a @ b
          else a @ ''/'' @ b)"

definition ckpt_file_of :: "string \<Rightarrow> string \<Rightarrow> string \<Rightarrow> string" where
  "ckpt_file_of ckpt_dir_path netname suffix =
     op_join ckpt_dir_path (netname @ ''_'' @ suffix @ ''.h5'')"

text \<open>
  \<open>self.models\<close> is a dict from the name of a sub-network to its Keras model, kept as
  the list of its items; a model is represented by its parameters. The file system maps
  the path of a regular file to its content, so \<open>op.isfile\<close> is the test for \<open>Some\<close>.
  The method \<open>load_weights\<close> of a Keras model is a parameter: it returns the parameters
  read from the snapshot or raises. The printed lines are collected in order.
\<close>

fun load_weights_loop ::
  "('w \<Rightarrow> 'snap \<Rightarrow> error + 'w) \<Rightarrow> (string \<Rightarrow> 'snap option) \<Rightarrow> string \<Rightarrow> string
     \<Rightarrow> (string \<times> 'w) list \<Rightarrow> string list \<Rightarrow> error + ((string \<times> 'w) list \<times> string list)" where
  "load_weights_loop keras_load fs ckpt_dir_path suffix [] printed = Inr ([], printed)"
| "load_weights_loop keras_load fs ckpt_dir_path suffix ((netname, model) # rest) printed =
     (let ckpt_file = ckpt_file_of ckpt_dir_path netname suffix in
      case fs ckpt_file of
        Some snapshot \<Rightarrow>
          (case keras_load model snapshot of
             Inl e \<Rightarrow> Inl e
           | Inr loaded \<Rightarrow>
               (case load_weights_loop keras_load fs ckpt_dir_path suffix rest
                       (printed @ [''===== '' @ netname @ '' weights loaded from '' @ ckpt_file]) of
                  Inl e \<Rightarrow> Inl e
                | Inr (rest', printed') \<Rightarrow> Inr ((netname, loaded) # rest', printed')))
      | None \<Rightarrow>
          (case load_weights_loop keras_load fs ckpt_dir_path suffix rest
                  (printed @ [''===== Failed to load weights of '' @ netname @ '', train from scratch ...'',
                              ''      tried to load file: '' @ ckpt_file]) of
             Inl e \<Rightarrow> Inl e
           | Inr (rest', printed') \<Rightarrow> Inr ((netname, model) # rest', printed')))"

definition load_weights ::
  "('w \<Rightarrow> 'snap \<Rightarrow> error + 'w) \<Rightarrow> (string \<Rightarrow> 'snap option) \<Rightarrow> (string \<times> 'w) list
     \<Rightarrow> string \<Rightarrow> string \<Rightarrow> error + ((string \<times> 'w) list \<times> string list)" where
  "load_weights keras_load fs models ckpt_dir_path suffix =
     load_weights_loop keras_load fs ckpt_dir_path suffix models []"


section \<open>Pose conversion\<close>










section \<open>Shapes\<close>

lemma shape2_nth: "shape2 n1 n2 t \<Longrightarrow> i < n1 \<Longrightarrow> length (t ! i) = n2"
  by (simp add: shape2_def list_all_length)

lemma shape2_length: "shape2 n1 n2 t \<Longrightarrow> length t = n1"
  by (simp add: shape2_def)

lemma shape3_nth: "shape3 n1 n2 n3 t \<Longrightarrow> i < n1 \<Longrightarrow> shape2 n2 n3 (t ! i)"
  by (simp add: shape3_def list_all_length)

lemma shape3_length: "shape3 n1 n2 n3 t \<Longrightarrow> length t = n1"
  by (simp add: shape3_def)

lemma shape4_nth: "shape4 n1 n2 n3 n4 t \<Longrightarrow> i < n1 \<Longrightarrow> shape3 n2 n3 n4 (t ! i)"
  by (simp add: shape4_def list_all_length)

lemma shape4_length: "shape4 n1 n2 n3 n4 t \<Longrightarrow> length t = n1"
  by (simp add: shape4_def)

lemma shape5_nth: "shape5 n1 n2 n3 n4 n5 t \<Longrightarrow> i < n1 \<Longrightarrow> shape4 n2 n3 n4 n5 (t ! i)"
  by (simp add: shape5_def list_all_length)

lemma shape5_length: "shape5 n1 n2 n3 n4 n5 t \<Longrightarrow> length t = n1"
  by (simp add: shape5_def)

section \<open>Sums over the entries of a tensor\<close>

lemma sum_list_map_nth: "sum_list (map f xs) = (\<Sum>i<length xs. f (xs ! i))"
proof -
  have "sum_list (map f xs) = (\<Sum>i = 0..<length (map f xs). map f xs ! i)"
    by (rule sum_list_sum_nth)
  also have "\<dots> = (\<Sum>i<length xs. f (xs ! i))"
    by (simp add: atLeast0LessThan)
  finally show ?thesis .
qed

lemma length_concat_rect:
  "list_all (\<lambda>x. length x = m) xss \<Longrightarrow> length (concat xss) = length xss * m"
  by (induction xss) auto

lemma sum_list_concat_map: "sum_list (concat xss) = sum_list (map sum_list xss)"
  by (induction xss) auto

lemma sum_list_entries4:
  "sum_list (entries4 t)
     = sum_list (map (\<lambda>x. sum_list (map (\<lambda>y. sum_list (map sum_list y)) x)) t)"
  by (simp add: entries4_def sum_list_concat_map map_concat comp_def)

lemma sum_entries4_index:
  assumes "shape4 n1 n2 n3 n4 t"
  shows "sum_list (entries4 t) = (\<Sum>a<n1. \<Sum>b<n2. \<Sum>c<n3. sum_list (t ! a ! b ! c))"
proof -
  have l1: "length t = n1" using assms by (rule shape4_length)
  have s3: "\<And>a. a < n1 \<Longrightarrow> shape3 n2 n3 n4 (t ! a)" using assms by (rule shape4_nth)
  have l2: "\<And>a. a < n1 \<Longrightarrow> length (t ! a) = n2" using s3 by (simp add: shape3_def)
  have l3: "\<And>a b. a < n1 \<Longrightarrow> b < n2 \<Longrightarrow> length (t ! a ! b) = n3"
    using shape3_nth[OF s3] by (simp add: shape2_def)
  show ?thesis
    unfolding sum_list_entries4 sum_list_map_nth l1
    by (intro sum.cong refl) (simp_all add: l2 l3)
qed

lemma length_entries4:
  assumes "shape4 n1 n2 n3 n4 t"
  shows "length (entries4 t) = n1 * n2 * n3 * n4"
proof -
  have a: "list_all (\<lambda>x. length x = n2) t" "length t = n1"
    using assms by (simp_all add: shape4_def shape3_def list_all_iff)
  have b: "list_all (\<lambda>x. length x = n3) (concat t)" 
    using assms by (auto simp: shape4_def shape3_def shape2_def list_all_iff)
  have c: "list_all (\<lambda>x. length x = n4) (concat (concat t))"
    using assms by (auto simp: shape4_def shape3_def shape2_def list_all_iff)
  show ?thesis
    unfolding entries4_def
    by (simp add: length_concat_rect[OF c] length_concat_rect[OF b] length_concat_rect[OF a(1)] a(2))
qed

section \<open>Properties of tfrecords/tfrecord_writer.py\<close>

subsection \<open>image_reader\<close>

text \<open>
  C9: an image of five frames of \<open>h\<close> rows each, stacked in the temporal order
  \<open>[src0 src1 tgt src2 src3]\<close> with the target in the middle, is read by \<open>image_reader\<close>
  (with \<open>SNIPPET_LEN = 5\<close>) as an image of the same number of rows holding the same five
  frames: the four source frames first, in their original relative order, and the target
  frame last, at the bottom.
\<close>

theorem image_reader_frames:
  assumes "length f0 = h" "length f1 = h" "length f2 = h" "length f3 = h" "length f4 = h"
  shows "image_reader 5 (Some (f0 @ f1 @ f2 @ f3 @ f4)) = Inr (f0 @ f1 @ f3 @ f4 @ f2)
       \<and> length (f0 @ f1 @ f3 @ f4 @ f2) = length (f0 @ f1 @ f2 @ f3 @ f4)"
proof -
  have len: "length (f0 @ f1 @ f2 @ f3 @ f4) div 5 = h"
    using assms by simp
  show ?thesis
    unfolding image_reader_def option.case Let_def py_slice_def len
    using assms by simp
qed

theorem image_reader_frames_witness:
  "image_reader 5 (Some ([0::nat, 1] @ [2, 3] @ [4, 5] @ [6, 7] @ [8, 9]))
     = Inr ([0, 1] @ [2, 3] @ [6, 7] @ [8, 9] @ [4, 5])"
  using image_reader_frames[of "[0::nat, 1]" 2 "[2, 3]" "[4, 5]" "[6, 7]" "[8, 9]"] by simp

subsection \<open>TfrecordMaker.make\<close>

lemma create_next_example_dict_advance:
  "fresh_feeders n fds \<Longrightarrow> k < n \<Longrightarrow>
   create_next_example_dict (advance k fds) = Inr (example_at fds k, advance (Suc k) fds)"
proof (induction fds)
  case Nil
  then show ?case by (simp add: advance_def example_at_def)
next
  case (Cons p fds)
  obtain key fd where p: "p = (key, fd)" by (cases p)
  from Cons.prems p have fd: "idx fd = 0" "length (files fd) = n" and rest: "fresh_feeders n fds"
    by (simp_all add: fresh_feeders_def)
  have "create_next_example_dict (advance k fds) = Inr (example_at fds k, advance (Suc k) fds)"
    using Cons.IH rest Cons.prems(2) by simp
  then show ?case using p fd Cons.prems(2)
    by (simp add: advance_def example_at_def get_next_def)
qed

lemma write_shard_range:
  "fresh_feeders n fds \<Longrightarrow> a + m \<le> n \<Longrightarrow>
   write_shard ser [a ..< a + m] (advance a fds) w
     = Inr (w @ map (\<lambda>i. ser (example_at fds i)) [a ..< a + m], advance (a + m) fds)"
proof (induction m arbitrary: a w)
  case 0
  then show ?case by simp
next
  case (Suc m)
  have step: "create_next_example_dict (advance a fds) = Inr (example_at fds a, advance (Suc a) fds)"
    using create_next_example_dict_advance[OF Suc.prems(1), of a] Suc.prems(2) by simp
  have range: "[a ..< a + Suc m] = a # [Suc a ..< Suc a + m]"
    by (simp add: upt_conv_Cons)
  have "write_shard ser [Suc a ..< Suc a + m] (advance (Suc a) fds) (w @ [ser (example_at fds a)])
     = Inr ((w @ [ser (example_at fds a)]) @ map (\<lambda>i. ser (example_at fds i)) [Suc a ..< Suc a + m],
            advance (Suc a + m) fds)"
    using Suc.IH[OF Suc.prems(1), of "Suc a"] Suc.prems(2) by simp
  then show ?case unfolding range using step by simp
qed

lemma write_shards_range:
  "fresh_feeders n fds \<Longrightarrow> (s + t) * p \<le> n \<Longrightarrow>
   write_shards ser p [s ..< s + t] (advance (s * p) fds) out
     = Inr (out @ map (\<lambda>si. (si, map (\<lambda>i. ser (example_at fds i)) [si * p ..< (si + 1) * p]))
                     [s ..< s + t])"
proof (induction t arbitrary: s out)
  case 0
  then show ?case by simp
next
  case (Suc t)
  have le: "s * p + p \<le> n"
  proof -
    have "s * p + p = (s + 1) * p" by (simp add: algebra_simps)
    also have "\<dots> \<le> (s + Suc t) * p" by (rule mult_le_mono1) simp
    also have "\<dots> \<le> n" by (rule Suc.prems(2))
    finally show ?thesis .
  qed
  have shard: "write_shard ser [s * p ..< (s + 1) * p] (advance (s * p) fds) []
     = Inr (map (\<lambda>i. ser (example_at fds i)) [s * p ..< (s + 1) * p], advance ((s + 1) * p) fds)"
    using write_shard_range[OF Suc.prems(1), of "s * p" p ser "[]"] le
    by (simp add: algebra_simps)
  have range: "[s ..< s + Suc t] = s # [Suc s ..< Suc s + t]"
    by (simp add: upt_conv_Cons)
  have rest: "write_shards ser p [Suc s ..< Suc s + t] (advance (Suc s * p) fds)
        (out @ [(s, map (\<lambda>i. ser (example_at fds i)) [s * p ..< (s + 1) * p])])
     = Inr ((out @ [(s, map (\<lambda>i. ser (example_at fds i)) [s * p ..< (s + 1) * p])])
           @ map (\<lambda>si. (si, map (\<lambda>i. ser (example_at fds i)) [si * p ..< (si + 1) * p]))
                 [Suc s ..< Suc s + t])"
    using Suc.IH[OF Suc.prems(1), of "Suc s"] Suc.prems(2) by simp
  show ?case unfolding range using shard rest by simp
qed

lemma advance_zero: "advance 0 fds = fds"
  by (induction fds) (auto simp: advance_def)

lemma concat_ranges:
  "concat (map (\<lambda>si. map f [si * p ..< (si + 1) * p]) [0 ..< t]) = map f [0 ..< t * p]"
proof (induction t)
  case 0
  then show ?case by simp
next
  case (Suc t)
  have "[0 ..< Suc t * p] = [0 ..< t * p] @ [t * p ..< Suc t * p]"
    by (metis le_add2 mult_Suc upt_add_eq_append zero_le add.commute)
  then show ?case using Suc by simp
qed


lemma fresh_feeders_lookup:
  "fresh_feeders n fds \<Longrightarrow> map_of fds key = Some fd \<Longrightarrow> len_feeder fd = n"
  by (induction fds) (auto simp: fresh_feeders_def len_feeder_def split: if_splits)

text \<open>
  C10: for feeders over \<open>n\<close> examples, \<open>make\<close> writes the shards numbered from 0 up
  to \<open>num_shards = max (min (n div 2000) 10) 1\<close> (excluded), shard \<open>si\<close> receives the examples
  \<open>si * (n div num_shards)\<close> up to \<open>(si + 1) * (n div num_shards)\<close> (excluded), so exactly
  \<open>num_shards * (n div num_shards)\<close> examples are written, namely the first ones; the
  trailing \<open>n mod num_shards\<close> examples are written to no shard.
\<close>

theorem TfrecordMaker_make_full_shards_only:
  assumes fresh: "fresh_feeders n fds"
    and img: "map_of fds ''image'' = Some image_feeder"
    and shards_formula: "num_shards = max (min (n div 2000) 10) 1"
  shows "\<exists>shards.
      TfrecordMaker_make ser (Inr fds) = Inr shards
    \<and> map fst shards = [0 ..< num_shards]
    \<and> (\<forall>si < num_shards. snd (shards ! si) =
          map (\<lambda>i. ser (example_at fds i))
            [si * (n div num_shards) ..< (si + 1) * (n div num_shards)])
    \<and> concat (map snd shards) =
          map (\<lambda>i. ser (example_at fds i)) [0 ..< num_shards * (n div num_shards)]
    \<and> length (concat (map snd shards)) = num_shards * (n div num_shards)
    \<and> n - num_shards * (n div num_shards) = n mod num_shards"
proof -
  define P where "P = n div num_shards"
  define shards where
    "shards = map (\<lambda>si. (si, map (\<lambda>i. ser (example_at fds i)) [si * P ..< (si + 1) * P]))
                [0 ..< num_shards]"
  have len: "len_feeder image_feeder = n"
    using fresh_feeders_lookup[OF fresh img] .
  have bound: "(0 + num_shards) * P \<le> n"
    by (simp add: P_def)
  have run: "write_shards ser P [0 ..< num_shards] fds [] = Inr shards"
    using write_shards_range[OF fresh bound, of ser "[]"]
    by (simp add: advance_zero shards_def)
  have m: "TfrecordMaker_make ser (Inr fds) = Inr shards"
    using run img len unfolding P_def shards_formula
    by (simp add: TfrecordMaker_make_def Let_def)
  have fsts: "map fst shards = [0 ..< num_shards]"
    by (simp add: shards_def comp_def)
  have nth: "\<forall>si < num_shards. snd (shards ! si)
      = map (\<lambda>i. ser (example_at fds i)) [si * P ..< (si + 1) * P]"
    by (simp add: shards_def)
  have snds: "map snd shards
      = map (\<lambda>si. map (\<lambda>i. ser (example_at fds i)) [si * P ..< (si + 1) * P]) [0 ..< num_shards]"
    by (simp add: shards_def comp_def)
  have cat: "concat (map snd shards) = map (\<lambda>i. ser (example_at fds i)) [0 ..< num_shards * P]"
    unfolding snds by (rule concat_ranges)
  have cnt: "length (concat (map snd shards)) = num_shards * P"
    unfolding cat by simp
  have rem: "n - num_shards * P = n mod num_shards"
    unfolding P_def by (simp add: minus_mult_div_eq_mod)
  show ?thesis
    using m fsts nth cat cnt rem unfolding P_def by blast
qed

theorem TfrecordMaker_make_full_shards_only_witness:
  "\<exists>shards.
      TfrecordMaker_make (\<lambda>ex. ex) (Inr [(''image'', \<lparr>files = replicate 4001 (7::nat), idx = 0\<rparr>)]) = Inr shards
    \<and> map fst shards = [0 ..< 2]
    \<and> length (concat (map snd shards)) = 4000
    \<and> (4001 :: nat) - 4000 = 4001 mod 2"
proof -
  have fresh: "fresh_feeders 4001 [(''image'', \<lparr>files = replicate 4001 (7::nat), idx = 0\<rparr>)]"
    by (simp add: fresh_feeders_def)
  have img: "map_of [(''image'', \<lparr>files = replicate 4001 (7::nat), idx = 0\<rparr>)] ''image''
      = Some \<lparr>files = replicate 4001 (7::nat), idx = 0\<rparr>"
    by simp
  have S: "(2 :: nat) = max (min (4001 div 2000) 10) 1"
    by simp
  show ?thesis
    using TfrecordMaker_make_full_shards_only[OF fresh img S, of "\<lambda>ex. ex"] by auto
qed

section \<open>Properties of model/synthesize/synthesize_base.py\<close>

subsection \<open>scale_intrinsic\<close>

text \<open>
  C4: for a batch of \<open>3 \<times> 3\<close> intrinsic matrices (with \<open>self.batch\<close> the size of the
  batch) and a scale factor other than zero, \<open>scale_intrinsic\<close> returns a batch of
  \<open>3 \<times> 3\<close> matrices in which every entry of the first two rows (the top-left
  \<open>2 \<times> 2\<close> block and the principal point) is the entry of \<open>K\<close> divided by the scale,
  and the bottom row is \<open>[0, 0, 1]\<close> for every batch element.
\<close>

theorem scale_intrinsic_entries:
  assumes shp: "shape3 batch 3 3 intrinsic" and nz: "scale \<noteq> 0"
  shows "\<exists>out. scale_intrinsic batch intrinsic scale = Inr out
     \<and> shape3 batch 3 3 out
     \<and> (\<forall>b < batch. (\<forall>i < 2. \<forall>j < 3. out ! b ! i ! j = intrinsic ! b ! i ! j / scale)
                    \<and> out ! b ! 2 = [0, 0, 1])"
proof -
  define out where
    "out = map2 (@) (map (map (map (\<lambda>x. x / scale))) (map (take 2) intrinsic))
                    (replicate batch [[0, 0, 1 :: real]])"
  have len: "length intrinsic = batch"
    using shp by (rule shape3_length)
  have mats: "\<And>b. b < batch \<Longrightarrow> shape2 3 3 (intrinsic ! b)"
    using shp by (rule shape3_nth)
  have rows: "list_all (\<lambda>K. 2 \<le> length K) intrinsic"
    using mats len by (simp add: list_all_length shape2_def)
  have cols: "list_all (list_all (\<lambda>row. length row = 3))
                (map (map (map (\<lambda>x. x / scale))) (map (take 2) intrinsic))"
    using mats len by (simp add: list_all_length shape2_def)
  have run: "scale_intrinsic batch intrinsic scale = Inr out"
    using rows cols len by (simp add: scale_intrinsic_def out_def)
  have nth: "\<And>b. b < batch \<Longrightarrow>
      out ! b = map (map (\<lambda>x. x / scale)) (take 2 (intrinsic ! b)) @ [[0, 0, 1]]"
    using len by (simp add: out_def)
  have shape: "shape3 batch 3 3 out"
    unfolding shape3_def
  proof
    show "length out = batch" using len by (simp add: out_def)
    show "list_all (shape2 3 3) out"
      unfolding list_all_length
    proof (intro allI impI)
      fix b assume "b < length out"
      then have b: "b < batch" using len by (simp add: out_def)
      have "shape2 3 3 (intrinsic ! b)" using mats b .
      then show "shape2 3 3 (out ! b)"
        unfolding nth[OF b] by (auto simp: shape2_def list_all_length nth_append)
    qed
  qed
  have entries: "\<forall>b < batch. (\<forall>i < 2. \<forall>j < 3. out ! b ! i ! j = intrinsic ! b ! i ! j / scale)
                    \<and> out ! b ! 2 = [0, 0, 1]"
  proof (intro allI impI conjI)
    fix b i j :: nat assume b: "b < batch" and i: "i < 2" and j: "j < 3"
    have s: "shape2 3 3 (intrinsic ! b)" using mats b .
    then have "length (intrinsic ! b ! i) = 3" using i by (simp add: shape2_def list_all_length)
    then show "out ! b ! i ! j = intrinsic ! b ! i ! j / scale"
      unfolding nth[OF b] using s i j by (simp add: nth_append shape2_def)
  next
    fix b assume b: "b < batch"
    have s: "shape2 3 3 (intrinsic ! b)" using mats b .
    then show "out ! b ! 2 = [0, 0, 1]"
      unfolding nth[OF b] by (simp add: nth_append shape2_def)
  qed
  show ?thesis using run shape entries by blast
qed

theorem scale_intrinsic_entries_witness:
  "scale_intrinsic 1 [[[8, 0, 4], [0, 6, 2], [0, 0, 1]]] 2
     = Inr [[[4, 0, 2], [0, 3, 1], [0, 0, 1]]]"
proof -
  have shp: "shape3 1 3 3 [[[8, 0, 4], [0, 6, 2], [0, 0, 1 :: real]]]"
    by (simp add: shape3_def shape2_def)
  have nz: "(2 :: real) \<noteq> 0" by simp
  from scale_intrinsic_entries[OF shp nz]
  show ?thesis by (simp add: scale_intrinsic_def)
qed

subsection \<open>cam2pixel\<close>

text \<open>
  C5: the claim says that the added epsilon keeps the divisor of \<open>cam2pixel\<close> away from
  zero for every finite input. The code adds the float32 constant \<open>1e-10\<close> to the
  projected third coordinate, so the divisor is zero for a point whose third coordinate is
  the negative of that constant: with the identity as intrinsic matrix and the point
  \<open>(1, 1, -eps32, 1)\<close>, every returned coordinate is the result of a division by zero.
\<close>

theorem cam2pixel_divides_by_zero:
  "cam2pixel 1 [[[[1], [1], [- (14411519 / 2 ^ 57)], [1]]]] [[[1, 0, 0], [0, 1, 0], [0, 0, 1]]]
     = Inr [[[[None], [None], [None]]]]"
  by (simp add: cam2pixel_def broadcast_zip_def cam2pixel_one_def mat_mul_def py_slice_def
      fdiv_def eps32_def)

section \<open>Properties of model/loss_and_metric/loss_util.py\<close>

lemma abs_diff_sum: 
  "length xs = n \<Longrightarrow> length ys = n \<Longrightarrow>
   sum_list (map2 (\<lambda>a b. \<bar>a - b\<bar>) xs ys) = (\<Sum>c<n. \<bar>xs ! c - ys ! c :: real\<bar>)"
proof -
  assume l: "length xs = n" "length ys = n"
  have "sum_list (map2 (\<lambda>a b. \<bar>a - b\<bar>) xs ys)
      = (\<Sum>c<length (zip xs ys). (\<lambda>(a, b). \<bar>a - b\<bar>) (zip xs ys ! c))"
    by (rule sum_list_map_nth)
  also have "\<dots> = (\<Sum>c<n. \<bar>xs ! c - ys ! c\<bar>)"
    using l by (intro sum.cong) simp_all
  finally show ?thesis .
qed

lemma l1_pixel_length:
  "length synt = n \<Longrightarrow> length orig = n \<Longrightarrow> length (l1_pixel synt orig) = n"
  by (simp add: l1_pixel_def Let_def)

lemma l1_pixel_sum:
  "length synt = n \<Longrightarrow> length orig = n \<Longrightarrow>
   sum_list (l1_pixel synt orig)
     = (if reduce_mean synt = 0 then 0 else (\<Sum>c<n. \<bar>synt ! c - orig ! c\<bar>))"
  using abs_diff_sum[of synt n orig] by (simp add: l1_pixel_def Let_def comp_def)

lemma l1_pixel_masked:
  "length synt = n \<Longrightarrow> length orig = n \<Longrightarrow> reduce_mean synt = 0 \<Longrightarrow>
   l1_pixel synt orig = replicate n 0"
  by (simp add: l1_pixel_def Let_def comp_def map_replicate_const)

lemma reduce_mean_zero_pixel: "(\<forall>c < length xs. xs ! c = 0) \<Longrightarrow> reduce_mean xs = 0"
proof -
  assume z: "\<forall>c < length xs. xs ! c = 0"
  have "sum_list xs = (\<Sum>c<length xs. xs ! c)"
    using sum_list_map_nth[of "\<lambda>x. x" xs] by simp
  also have "\<dots> = 0" using z by simp
  finally show ?thesis by (simp add: reduce_mean_def)
qed

lemma photometric_error_l1_nth:
  assumes synt: "shape5 B S H W C synt_target" and orig: "shape4 B H W C orig_target"
    and b: "b < B"
  shows "shape4 S H W C (photometric_error_l1 synt_target orig_target ! b)"
    and "\<And>s i j. s < S \<Longrightarrow> i < H \<Longrightarrow> j < W \<Longrightarrow>
          photometric_error_l1 synt_target orig_target ! b ! s ! i ! j
            = l1_pixel (synt_target ! b ! s ! i ! j) (orig_target ! b ! i ! j)"
proof -
  define E where "E = map (\<lambda>synt_img. map2 (map2 l1_pixel) synt_img (orig_target ! b)) (synt_target ! b)"
  have lb: "length synt_target = B" "length orig_target = B"
    using synt orig by (simp_all add: shape5_def shape4_def)
  have Eb: "photometric_error_l1 synt_target orig_target ! b = E"
    using lb b by (simp add: photometric_error_l1_def E_def)
  have sb: "shape4 S H W C (synt_target ! b)" using synt b by (rule shape5_nth)
  have ob: "shape3 H W C (orig_target ! b)" using orig b by (rule shape4_nth)
  have ls: "length (synt_target ! b) = S" using sb by (rule shape4_length)
  have ss: "\<And>s. s < S \<Longrightarrow> shape3 H W C (synt_target ! b ! s)" using sb by (rule shape4_nth)
  have lo: "length (orig_target ! b) = H" using ob by (rule shape3_length)
  have oi: "\<And>i. i < H \<Longrightarrow> shape2 W C (orig_target ! b ! i)" using ob by (rule shape3_nth)
  have lsi: "\<And>s. s < S \<Longrightarrow> length (synt_target ! b ! s) = H"
    using ss by (simp add: shape3_def)
  have si: "\<And>s i. s < S \<Longrightarrow> i < H \<Longrightarrow> shape2 W C (synt_target ! b ! s ! i)"
    using shape3_nth[OF ss] by simp
  have px: "\<And>s i j. s < S \<Longrightarrow> i < H \<Longrightarrow> j < W \<Longrightarrow> length (synt_target ! b ! s ! i ! j) = C"
    using shape2_nth[OF si] by simp
  have po: "\<And>i j. i < H \<Longrightarrow> j < W \<Longrightarrow> length (orig_target ! b ! i ! j) = C"
    using shape2_nth[OF oi] by simp
  have lw: "\<And>s i. s < S \<Longrightarrow> i < H \<Longrightarrow> length (synt_target ! b ! s ! i) = W"
    using si by (simp add: shape2_def)
  have lwo: "\<And>i. i < H \<Longrightarrow> length (orig_target ! b ! i) = W"
    using oi by (simp add: shape2_def)
  have ent: "\<And>s i j. s < S \<Longrightarrow> i < H \<Longrightarrow> j < W \<Longrightarrow>
      E ! s ! i ! j = l1_pixel (synt_target ! b ! s ! i ! j) (orig_target ! b ! i ! j)"
    by (simp add: E_def ls lsi lo lw lwo)
  show "\<And>s i j. s < S \<Longrightarrow> i < H \<Longrightarrow> j < W \<Longrightarrow>
          photometric_error_l1 synt_target orig_target ! b ! s ! i ! j
            = l1_pixel (synt_target ! b ! s ! i ! j) (orig_target ! b ! i ! j)"
    unfolding Eb using ent .
  have "shape4 S H W C E"
    unfolding shape4_def shape3_def shape2_def list_all_length
  proof (intro conjI allI impI)
    show "length E = S" by (simp add: E_def ls)
  next
    fix s assume "s < length E"
    then have s: "s < S" by (simp add: E_def ls)
    show "length (E ! s) = H" using s by (simp add: E_def ls lsi lo)
  next
    fix s i assume "s < length E" "i < length (E ! s)"
    then have s: "s < S" and i: "i < H" by (simp_all add: E_def ls lsi lo)
    show "length (E ! s ! i) = W" using s i by (simp add: E_def ls lsi lo lw lwo)
  next
    fix s i j assume "s < length E" "i < length (E ! s)" "j < length (E ! s ! i)"
    then have s: "s < S" and i: "i < H" and j: "j < W"
      by (simp_all add: E_def ls lsi lo lw lwo)
    show "length (E ! s ! i ! j) = C"
      unfolding ent[OF s i j] using px[OF s i j] po[OF i j] by (rule l1_pixel_length)
  qed
  then show "shape4 S H W C (photometric_error_l1 synt_target orig_target ! b)"
    unfolding Eb .
qed

text \<open>
  The claim C1 as it is written says that the loss of an example is the mean of the
  absolute errors over the pixels that are not masked only. On one example of two pixels,
  the first of them black in the synthesized image, \<open>photometric_loss_l1\<close> returns
  \<open>1/4\<close>: the sum \<open>3/2\<close> of the errors of the second pixel over all six entries; the
  mean over the three entries of the pixel that is not masked is \<open>1/2\<close>.
\<close>

theorem photometric_loss_l1_counts_masked_pixels:
  "photometric_loss_l1 [[[[[0, 0, 0], [1 / 2, 1 / 2, 1 / 2]]]]] [[[[0, 0, 0], [0, 0, 0]]]] = [1 / 4]
   \<and> l1_mean_over_unmasked [[[[[0, 0, 0], [1 / 2, 1 / 2, 1 / 2]]]]] [[[[0, 0, 0], [0, 0, 0]]]] = [1 / 2]
   \<and> photometric_loss_l1 [[[[[0, 0, 0], [1 / 2, 1 / 2, 1 / 2]]]]] [[[[0, 0, 0], [0, 0, 0]]]]
       \<noteq> l1_mean_over_unmasked [[[[[0, 0, 0], [1 / 2, 1 / 2, 1 / 2]]]]] [[[[0, 0, 0], [0, 0, 0]]]]"
  by (simp add: photometric_loss_l1_def photometric_error_l1_def l1_pixel_def entries4_def
      reduce_mean_def l1_mean_over_unmasked_def unmasked_pixels_def)

lemma mask_exact_mean_zero:
  assumes "mask_exact px" "length px = C" "0 < C"
  shows "reduce_mean px = 0 \<longleftrightarrow> (\<forall>c<C. px ! c = 0)"
proof -
  have nonneg: "\<And>x. x \<in> set px \<Longrightarrow> 0 \<le> x"
  proof -
    fix x assume "x \<in> set px"
    then have "x = 0 \<or> (1 / 2 ^ 100 \<le> x \<and> x \<le> 2 ^ 100)"
      using assms(1) by (simp add: mask_exact_def list_all_iff)
    moreover have "(0 :: real) \<le> 1 / 2 ^ 100" by simp
    ultimately show "0 \<le> x" by linarith
  qed
  have "reduce_mean px = 0 \<longleftrightarrow> sum_list px = 0"
    using assms(2,3) by (simp add: reduce_mean_def)
  also have "\<dots> \<longleftrightarrow> (\<forall>x \<in> set px. x = 0)"
    using nonneg by (rule sum_list_nonneg_eq_0_iff)
  also have "\<dots> \<longleftrightarrow> (\<forall>c<C. px ! c = 0)"
    using assms(2) by (simp add: all_set_conv_all_nth)
  finally show ?thesis .
qed

lemma photometric_loss_l1_index_sum:
  assumes synt: "shape5 B S H W C synt_target" and orig: "shape4 B H W C orig_target"
    and b: "b < B"
  shows "photometric_loss_l1 synt_target orig_target ! b
           = (\<Sum>s<S. \<Sum>i<H. \<Sum>j<W.
                if reduce_mean (synt_target ! b ! s ! i ! j) = 0 then 0
                else (\<Sum>c<C. \<bar>synt_target ! b ! s ! i ! j ! c - orig_target ! b ! i ! j ! c\<bar>))
             / real (S * H * W * C)
       \<and> (\<forall>s<S. \<forall>i<H. \<forall>j<W.
             ((\<forall>c<C. synt_target ! b ! s ! i ! j ! c = 0) \<longrightarrow>
                reduce_mean (synt_target ! b ! s ! i ! j) = 0)
           \<and> (reduce_mean (synt_target ! b ! s ! i ! j) = 0 \<longrightarrow>
                photometric_error_l1 synt_target orig_target ! b ! s ! i ! j = replicate C 0))"
proof -
  define E where "E = photometric_error_l1 synt_target orig_target ! b"
  have lb: "length synt_target = B" "length orig_target = B"
    using synt orig by (simp_all add: shape5_def shape4_def)
  have shp: "shape4 S H W C E"
    unfolding E_def using synt orig b by (rule photometric_error_l1_nth(1))
  have ent: "\<And>s i j. s < S \<Longrightarrow> i < H \<Longrightarrow> j < W \<Longrightarrow>
      E ! s ! i ! j = l1_pixel (synt_target ! b ! s ! i ! j) (orig_target ! b ! i ! j)"
    unfolding E_def using photometric_error_l1_nth(2)[OF synt orig b] .
  have px: "\<And>s i j. s < S \<Longrightarrow> i < H \<Longrightarrow> j < W \<Longrightarrow> length (synt_target ! b ! s ! i ! j) = C"
    using shape2_nth[OF shape3_nth[OF shape4_nth[OF shape5_nth[OF synt b]]]] by simp
  have po: "\<And>i j. i < H \<Longrightarrow> j < W \<Longrightarrow> length (orig_target ! b ! i ! j) = C"
    using shape2_nth[OF shape3_nth[OF shape4_nth[OF orig b]]] by simp
  have "photometric_loss_l1 synt_target orig_target ! b = reduce_mean (entries4 E)"
    using lb b by (simp add: photometric_loss_l1_def photometric_error_l1_def E_def)
  also have "\<dots> = (\<Sum>s<S. \<Sum>i<H. \<Sum>j<W. sum_list (E ! s ! i ! j)) / real (S * H * W * C)"
    by (simp add: reduce_mean_def sum_entries4_index[OF shp] length_entries4[OF shp])
  also have "(\<Sum>s<S. \<Sum>i<H. \<Sum>j<W. sum_list (E ! s ! i ! j))
      = (\<Sum>s<S. \<Sum>i<H. \<Sum>j<W.
                if reduce_mean (synt_target ! b ! s ! i ! j) = 0 then 0
                else (\<Sum>c<C. \<bar>synt_target ! b ! s ! i ! j ! c - orig_target ! b ! i ! j ! c\<bar>))"
    by (intro sum.cong refl) (simp add: ent l1_pixel_sum[OF px po])
  finally have mean: "photometric_loss_l1 synt_target orig_target ! b
           = (\<Sum>s<S. \<Sum>i<H. \<Sum>j<W.
                if reduce_mean (synt_target ! b ! s ! i ! j) = 0 then 0
                else (\<Sum>c<C. \<bar>synt_target ! b ! s ! i ! j ! c - orig_target ! b ! i ! j ! c\<bar>))
             / real (S * H * W * C)" .
  have masked: "\<forall>s<S. \<forall>i<H. \<forall>j<W.
             ((\<forall>c<C. synt_target ! b ! s ! i ! j ! c = 0) \<longrightarrow>
                reduce_mean (synt_target ! b ! s ! i ! j) = 0)
           \<and> (reduce_mean (synt_target ! b ! s ! i ! j) = 0 \<longrightarrow>
                photometric_error_l1 synt_target orig_target ! b ! s ! i ! j = replicate C 0)"
  proof (intro allI impI conjI)
    fix s i j assume sij: "s < S" "i < H" "j < W"
    { assume "\<forall>c<C. synt_target ! b ! s ! i ! j ! c = 0"
      then show "reduce_mean (synt_target ! b ! s ! i ! j) = 0"
        using px[OF sij] by (intro reduce_mean_zero_pixel) simp }
    { assume "reduce_mean (synt_target ! b ! s ! i ! j) = 0"
      then show "photometric_error_l1 synt_target orig_target ! b ! s ! i ! j = replicate C 0"
        using ent[OF sij] l1_pixel_masked[OF px[OF sij] po[OF sij(2,3)]] by (simp add: E_def) }
  qed
  show ?thesis using mean masked by blast
qed

text \<open>
  C1, amended: for an example that has entries, and synthesized pixels on which the
  float32 mask is the exact one (\<open>mask_exact\<close>), a synthesized pixel is masked exactly
  when it is zero in every channel; a masked pixel has the error zero in every channel, so
  it contributes exactly 0 to the loss. The loss of the example is the sum of the absolute
  errors of its pixels that are not masked, divided by the number of all entries of the
  example (sources times height times width times channels), the masked pixels included
  in that number.
\<close>

theorem photometric_loss_l1_mean_over_all:
  assumes synt: "shape5 B S H W C synt_target" and orig: "shape4 B H W C orig_target"
    and b: "b < B"
    and pos: "0 < S" "0 < H" "0 < W" "0 < C"
    and exact: "\<forall>s<S. \<forall>i<H. \<forall>j<W. mask_exact (synt_target ! b ! s ! i ! j)"
  shows "photometric_loss_l1 synt_target orig_target ! b
           = (\<Sum>s<S. \<Sum>i<H. \<Sum>j<W.
                if (\<forall>c<C. synt_target ! b ! s ! i ! j ! c = 0) then 0
                else (\<Sum>c<C. \<bar>synt_target ! b ! s ! i ! j ! c - orig_target ! b ! i ! j ! c\<bar>))
             / real (S * H * W * C)
       \<and> 0 < S * H * W * C
       \<and> (\<forall>s<S. \<forall>i<H. \<forall>j<W.
             ((reduce_mean (synt_target ! b ! s ! i ! j) = 0)
                = (\<forall>c<C. synt_target ! b ! s ! i ! j ! c = 0))
           \<and> ((\<forall>c<C. synt_target ! b ! s ! i ! j ! c = 0) \<longrightarrow>
                photometric_error_l1 synt_target orig_target ! b ! s ! i ! j = replicate C 0))"
proof -
  note base = photometric_loss_l1_index_sum[OF synt orig b]
  have px: "\<And>s i j. s < S \<Longrightarrow> i < H \<Longrightarrow> j < W \<Longrightarrow> length (synt_target ! b ! s ! i ! j) = C"
    using shape2_nth[OF shape3_nth[OF shape4_nth[OF shape5_nth[OF synt b]]]] by simp
  have iff: "\<And>s i j. s < S \<Longrightarrow> i < H \<Longrightarrow> j < W \<Longrightarrow>
      (reduce_mean (synt_target ! b ! s ! i ! j) = 0)
        = (\<forall>c<C. synt_target ! b ! s ! i ! j ! c = 0)"
  proof -
    fix s i j assume sij: "s < S" "i < H" "j < W"
    have "mask_exact (synt_target ! b ! s ! i ! j)" using exact sij by simp
    then show "(reduce_mean (synt_target ! b ! s ! i ! j) = 0)
        = (\<forall>c<C. synt_target ! b ! s ! i ! j ! c = 0)"
      using px[OF sij] pos(4) by (rule mask_exact_mean_zero)
  qed
  have sums: "(\<Sum>s<S. \<Sum>i<H. \<Sum>j<W.
                if reduce_mean (synt_target ! b ! s ! i ! j) = 0 then 0
                else (\<Sum>c<C. \<bar>synt_target ! b ! s ! i ! j ! c - orig_target ! b ! i ! j ! c\<bar>))
      = (\<Sum>s<S. \<Sum>i<H. \<Sum>j<W.
                if (\<forall>c<C. synt_target ! b ! s ! i ! j ! c = 0) then 0
                else (\<Sum>c<C. \<bar>synt_target ! b ! s ! i ! j ! c - orig_target ! b ! i ! j ! c\<bar>))"
    by (intro sum.cong refl) (simp add: iff)
  have mean: "photometric_loss_l1 synt_target orig_target ! b
           = (\<Sum>s<S. \<Sum>i<H. \<Sum>j<W.
                if (\<forall>c<C. synt_target ! b ! s ! i ! j ! c = 0) then 0
                else (\<Sum>c<C. \<bar>synt_target ! b ! s ! i ! j ! c - orig_target ! b ! i ! j ! c\<bar>))
             / real (S * H * W * C)"
    using base sums by simp
  have count: "0 < S * H * W * C" using pos by simp
  have masked: "\<forall>s<S. \<forall>i<H. \<forall>j<W.
             ((reduce_mean (synt_target ! b ! s ! i ! j) = 0)
                = (\<forall>c<C. synt_target ! b ! s ! i ! j ! c = 0))
           \<and> ((\<forall>c<C. synt_target ! b ! s ! i ! j ! c = 0) \<longrightarrow>
                photometric_error_l1 synt_target orig_target ! b ! s ! i ! j = replicate C 0)"
    using base iff by blast
  show ?thesis using mean count masked by blast
qed

theorem photometric_loss_l1_mean_over_all_witness:
  "photometric_loss_l1 [[[[[0, 0, 0], [1 / 2, 1 / 2, 1 / 2]]]]] [[[[0, 0, 0], [0, 0, 0]]]] ! 0
     = (3 / 2) / 6
   \<and> photometric_error_l1 [[[[[0, 0, 0], [1 / 2, 1 / 2, 1 / 2]]]]] [[[[0, 0, 0], [0, 0, 0]]]]
        ! 0 ! 0 ! 0 ! 0 = [0, 0, 0]"
proof -
  define synt where "synt = [[[[[0, 0, 0], [1 / 2, 1 / 2, 1 / 2 :: real]]]]]"
  define orig where "orig = [[[[0, 0, 0], [0, 0, 0 :: real]]]]"
  have synt: "shape5 1 1 1 2 3 synt"
    by (simp add: synt_def shape5_def shape4_def shape3_def shape2_def)
  have orig: "shape4 1 1 2 3 orig"
    by (simp add: orig_def shape4_def shape3_def shape2_def)
  have pos: "(0 :: nat) < 1" "(0 :: nat) < 2" "(0 :: nat) < 3" by simp_all
  have half: "(1 :: real) / 2 ^ 100 \<le> 1 / 2"
    by (rule divide_left_mono) simp_all
  have p0: "synt ! 0 ! 0 ! 0 ! 0 = [0, 0, 0]" and p1: "synt ! 0 ! 0 ! 0 ! 1 = [1 / 2, 1 / 2, 1 / 2]"
    by (simp_all add: synt_def)
  have o0: "orig ! 0 ! 0 ! 0 = [0, 0, 0]" and o1: "orig ! 0 ! 0 ! 1 = [0, 0, 0]"
    by (simp_all add: orig_def)
  have one: "{..<1::nat} = {0}" by auto
  have two: "{..<2::nat} = {0, 1}" by auto
  have three: "{..<3::nat} = {0, 1, 2}" by auto
  have all1: "\<And>P. (\<forall>c<1::nat. P c) = P 0" by simp
  have all2: "\<And>P. (\<forall>c<2::nat. P c) = (P 0 \<and> P 1)"
    by (auto simp: less_Suc_eq numeral_2_eq_2)
  have all3: "\<And>P. (\<forall>c<3::nat. P c) = (P 0 \<and> P 1 \<and> P 2)"
    by (auto simp: less_Suc_eq numeral_3_eq_3 numeral_2_eq_2)
  have exact: "\<forall>s<1. \<forall>i<1. \<forall>j<2. mask_exact (synt ! 0 ! s ! i ! j)"
    using half unfolding all1 all2 by (simp add: mask_exact_def synt_def)
  note th = photometric_loss_l1_mean_over_all[OF synt orig pos(1) pos(1) pos(1) pos(2) pos(3) exact]
  have sum: "(\<Sum>s<1. \<Sum>i<1. \<Sum>j<2.
                if (\<forall>c<3. synt ! 0 ! s ! i ! j ! c = 0) then 0
                else (\<Sum>c<3. \<bar>synt ! 0 ! s ! i ! j ! c - orig ! 0 ! i ! j ! c\<bar>)) = 3 / 2"
    unfolding all3 one two three by (simp add: synt_def orig_def)
  have loss: "photometric_loss_l1 synt orig ! 0 = (3 / 2) / 6"
    using th sum by simp
  have "(\<forall>c<3. synt ! 0 ! 0 ! 0 ! 0 ! c = 0) \<longrightarrow>
      photometric_error_l1 synt orig ! 0 ! 0 ! 0 ! 0 = replicate 3 0"
    using th by simp
  then have err: "photometric_error_l1 synt orig ! 0 ! 0 ! 0 ! 0 = [0, 0, 0]"
    unfolding all3 by (simp add: numeral_3_eq_3 synt_def)
  show ?thesis
    using loss err unfolding synt_def orig_def by simp
qed

section \<open>Properties of model/loss_and_metric/losses.py\<close>

subsection \<open>TotalLoss\<close>

lemma weighted_losses_values:
  "length cs = length ws \<Longrightarrow> length vs = length cs \<Longrightarrow>
   (\<forall>i < length cs. (cs ! i) features predictions augm_data = Inr (vs ! i)) \<Longrightarrow>
   weighted_losses (zip cs ws) features predictions augm_data acc = Inr (acc @ map2 (*) vs ws)"
proof (induction cs arbitrary: ws vs acc)
  case Nil
  then show ?case by simp
next
  case (Cons c cs)
  obtain w ws' where ws: "ws = w # ws'" using Cons.prems(1) by (cases ws) auto
  obtain v vs' where vs: "vs = v # vs'" using Cons.prems(2) by (cases vs) auto
  have c: "c features predictions augm_data = Inr v"
    using Cons.prems(3) vs by auto
  have rest: "\<forall>i < length cs. (cs ! i) features predictions augm_data = Inr (vs' ! i)"
    using Cons.prems(3) vs by auto
  have "weighted_losses (zip cs ws') features predictions augm_data (acc @ [v * w])
      = Inr ((acc @ [v * w]) @ map2 (*) vs' ws')"
    using Cons.IH[of ws' vs' "acc @ [v * w]"] Cons.prems(1,2) rest ws vs by simp
  then show ?case using c ws vs by simp
qed

lemma map2_mult_nth_sum:
  "length vs = n \<Longrightarrow> length ws = n \<Longrightarrow>
   sum_list (map2 (*) vs ws) = (\<Sum>i<n. vs ! i * ws ! i :: real)"
proof -
  assume l: "length vs = n" "length ws = n"
  have "sum_list (map2 (*) vs ws) = (\<Sum>i<length (zip vs ws). (\<lambda>(a, b). a * b) (zip vs ws ! i))"
    by (rule sum_list_map_nth)
  also have "\<dots> = (\<Sum>i<n. vs ! i * ws ! i)"
    using l by (intro sum.cong) simp_all
  finally show ?thesis .
qed

text \<open>
  C2: for a configured list of loss terms with one weight each, and predictions and
  features on which the augmentation and every term return a value, \<open>TotalLoss\<close> returns
  as total loss the sum over the terms of the term's value times its weight, together
  with the list of these weighted values, one per term and in the order of the
  configured list.
\<close>

theorem TotalLoss_weighted_sum:
  assumes lw: "length loss_weights = length calc_losses"
    and lv: "length values = length calc_losses"
    and augm: "augmented ext stereo features predictions = Inr augm_data"
    and vals: "\<forall>i < length calc_losses.
                 (calc_losses ! i) features predictions augm_data = Inr (values ! i)"
  shows "\<exists>losses.
      TotalLoss_call ext calc_losses loss_weights stereo predictions features
        = Inr (\<Sum>i<length calc_losses. values ! i * loss_weights ! i, losses)
    \<and> length losses = length calc_losses
    \<and> (\<forall>i < length calc_losses. losses ! i = values ! i * loss_weights ! i)"
proof -
  define losses where "losses = map2 (*) values loss_weights"
  have run: "weighted_losses (zip calc_losses loss_weights) features predictions augm_data []
      = Inr losses"
    using weighted_losses_values[of calc_losses loss_weights "values" features predictions augm_data "[]"]
      lw lv vals by (simp add: losses_def)
  have total: "sum_list losses = (\<Sum>i<length calc_losses. values ! i * loss_weights ! i)"
    unfolding losses_def using lv lw by (rule map2_mult_nth_sum)
  have call: "TotalLoss_call ext calc_losses loss_weights stereo predictions features
        = Inr (\<Sum>i<length calc_losses. values ! i * loss_weights ! i, losses)"
    using augm run total by (simp add: TotalLoss_call_def)
  have len: "length losses = length calc_losses"
    using lv lw by (simp add: losses_def)
  have nth: "\<forall>i < length calc_losses. losses ! i = values ! i * loss_weights ! i"
    using lv lw by (simp add: losses_def)
  show ?thesis using call len nth by blast
qed

theorem TotalLoss_weighted_sum_witness:
  "\<exists>losses.
     TotalLoss_call
       \<lparr>split_into_source_and_target = (\<lambda>v. Inr (v, v)),
           multi_scale_like_depth = (\<lambda>t d. Inr d),
           multi_scale_like_flow = (\<lambda>t f. Inr (TensorList4 [])),
           SynthesizeMultiScale = (\<lambda>src k d p. Inr (TensorList5 [[[[[[2], [2]], [[2], [2]]]]]])),
           FlowWarpMultiScale = (\<lambda>src f. Inr (TensorList5 [])),
           photometric_loss_ssim = (\<lambda>synt orig. [])\<rparr>
       [SmoothenessLossMultiScale_call [],
         PhotometricLossMultiScale_call (\<lparr>split_into_source_and_target = (\<lambda>v. Inr (v, v)),
           multi_scale_like_depth = (\<lambda>t d. Inr d),
           multi_scale_like_flow = (\<lambda>t f. Inr (TensorList4 [])),
           SynthesizeMultiScale = (\<lambda>src k d p. Inr (TensorList5 [[[[[[2], [2]], [[2], [2]]]]]])),
           FlowWarpMultiScale = (\<lambda>src f. Inr (TensorList5 [])),
           photometric_loss_ssim = (\<lambda>synt orig. [])\<rparr>) \<lparr>photometric_loss = L1, key_suffix = []\<rparr>]
       [1 / 2, 1] False
       (Map.empty(''depth_ms'' \<mapsto> TensorList4 [[[[[1], [1]], [[1], [1]]]]],
                    ''pose'' \<mapsto> Tensor3 [],
                    ''disp_ms'' \<mapsto> TensorList4 [[[[[1], [3]], [[1], [3]]]]]))
       (Map.empty(''image'' \<mapsto> Tensor4 [[[[1], [1]], [[1], [1]]]], ''intrinsic'' \<mapsto> Tensor3 []))
       = Inr (3 / 2, losses)
     \<and> length losses = 2 \<and> losses ! 0 = 1 / 2 \<and> losses ! 1 = 1"
proof -
  define ext where "ext = \<lparr>split_into_source_and_target = (\<lambda>v. Inr (v, v)),
           multi_scale_like_depth = (\<lambda>t d. Inr d),
           multi_scale_like_flow = (\<lambda>t f. Inr (TensorList4 [])),
           SynthesizeMultiScale = (\<lambda>src k d p. Inr (TensorList5 [[[[[[2], [2]], [[2], [2]]]]]])),
           FlowWarpMultiScale = (\<lambda>src f. Inr (TensorList5 [])),
           photometric_loss_ssim = (\<lambda>synt orig. [])\<rparr>"
  define predictions where "predictions = (Map.empty(''depth_ms'' \<mapsto> TensorList4 [[[[[1], [1]], [[1], [1]]]]],
                    ''pose'' \<mapsto> Tensor3 [],
                    ''disp_ms'' \<mapsto> TensorList4 [[[[[1], [3]], [[1], [3]]]]]))"
  define features where "features = (Map.empty(''image'' \<mapsto> Tensor4 [[[[1], [1]], [[1], [1]]]], ''intrinsic'' \<mapsto> Tensor3 []))"
  define augm_data where "augm_data = (Map.empty(''source'' \<mapsto> Tensor4 [[[[1], [1]], [[1], [1]]]],
                    ''target'' \<mapsto> Tensor4 [[[[1], [1]], [[1], [1]]]],
                    ''target_ms'' \<mapsto> TensorList4 [[[[[1], [1]], [[1], [1]]]]],
                    ''synth_target_ms'' \<mapsto> TensorList5 [[[[[[2], [2]], [[2], [2]]]]]]))"
  have augm: "augmented ext False features predictions = Inr augm_data"
    by (simp add: augmented_def augment_data_def getitem_def ext_def predictions_def
        features_def augm_data_def)
  have smooth: "SmoothenessLossMultiScale_call [] features predictions augm_data = Inr 1"
    by (simp add: SmoothenessLossMultiScale_call_def getitem_def predictions_def augm_data_def
        width_of_def smootheness_loss_def gradient_x_def gradient_y_def edge_weights_def
        tensor_mul_def entries4_def reduce_mean_def)
  have photo: "PhotometricLossMultiScale_call ext \<lparr>photometric_loss = L1, key_suffix = []\<rparr>
        features predictions augm_data = Inr 1"
    by (simp add: PhotometricLossMultiScale_call_def getitem_def augm_data_def photometric_sum_def
        apply_photometric_loss_def photometric_loss_l1_def photometric_error_l1_def l1_pixel_def
        entries4_def reduce_mean_def)
  have vals: "\<forall>i < length [SmoothenessLossMultiScale_call [],
         PhotometricLossMultiScale_call ext \<lparr>photometric_loss = L1, key_suffix = []\<rparr>].
      ([SmoothenessLossMultiScale_call [],
         PhotometricLossMultiScale_call ext \<lparr>photometric_loss = L1, key_suffix = []\<rparr>] ! i)
        features predictions augm_data = Inr ([1, 1] ! i)"
    using smooth photo by (simp add: nth_Cons' less_Suc_eq)
  from TotalLoss_weighted_sum[OF _ _ augm vals, of "[1 / 2, 1]"]
  obtain losses where
    call: "TotalLoss_call ext
       [SmoothenessLossMultiScale_call [],
        PhotometricLossMultiScale_call ext \<lparr>photometric_loss = L1, key_suffix = []\<rparr>]
       [1 / 2, 1] False predictions features = Inr (3 / 2, losses)"
    and len: "length losses = 2"
    and nth: "\<forall>i < 2. losses ! i = [1, 1] ! i * [1 / 2, 1] ! i"
    by (auto simp: lessThan_Suc numeral_2_eq_2)
  have "losses ! 0 = 1 / 2" "losses ! 1 = 1"
    using nth by (simp_all add: numeral_2_eq_2)
  then show ?thesis
    using call len unfolding ext_def predictions_def features_def by blast
qed

subsection \<open>Configuration errors\<close>

lemma weighted_losses_first_failure:
  "i < length pairs \<Longrightarrow>
   (\<forall>j<i. \<exists>v. fst (pairs ! j) features predictions augm_data = Inr v) \<Longrightarrow>
   fst (pairs ! i) features predictions augm_data = Inl e \<Longrightarrow>
   weighted_losses pairs features predictions augm_data acc = Inl e"
proof (induction pairs arbitrary: i acc)
  case Nil
  then show ?case by simp
next
  case (Cons p pairs)
  obtain c w where p: "p = (c, w)" by (cases p)
  show ?case
  proof (cases i)
    case 0
    then show ?thesis using Cons.prems p by simp
  next
    case (Suc k)
    have "\<exists>v. fst ((p # pairs) ! 0) features predictions augm_data = Inr v"
      using Cons.prems(2) Suc by blast
    then obtain v where v: "c features predictions augm_data = Inr v"
      using p by auto
    have earlier: "\<forall>j<k. \<exists>v. fst (pairs ! j) features predictions augm_data = Inr v"
    proof (intro allI impI)
      fix j assume "j < k"
      then have "Suc j < i" using Suc by simp
      then have "\<exists>v. fst ((p # pairs) ! Suc j) features predictions augm_data = Inr v"
        using Cons.prems(2) by blast
      then show "\<exists>v. fst (pairs ! j) features predictions augm_data = Inr v" by simp
    qed
    have "weighted_losses pairs features predictions augm_data (acc @ [v * w]) = Inl e"
      using Cons.IH[of k "acc @ [v * w]"] Cons.prems(1,3) earlier Suc by simp
    then show ?thesis using p v by simp
  qed
qed

lemma augment_data_no_flow:
  assumes "predictions (''flow_ms'' @ suffix) = None"
    and "augment_data ext features predictions suffix = Inr augm"
  shows "augm (''flow_target_ms'' @ suffix) = None"
  using assms
  by (auto simp: augment_data_def getitem_def Let_def split: sum.splits option.splits prod.splits)

text \<open>
  The claim C3 as it is written says that a prediction key missing for a loss term makes
  the call fail before any numeric work starts. In \<open>TotalLoss\<close> the augmentation, which
  runs the view synthesis, comes first: with \<open>disp_ms\<close> absent for the smoothness term
  and a synthesizer that raises on a singular intrinsic matrix, the exception of the
  synthesizer is what comes out; with a regular intrinsic matrix the synthesis returns and
  the \<open>KeyError\<close> of \<open>disp_ms\<close> follows.
\<close>

theorem TotalLoss_key_error_after_synthesis:
  "TotalLoss_call (\<lparr>split_into_source_and_target = (\<lambda>v. Inr (v, v)),
           multi_scale_like_depth = (\<lambda>t d. Inr d),
           multi_scale_like_flow = (\<lambda>t f. Inr (TensorList4 [])),
           SynthesizeMultiScale =
             (\<lambda>src k d p. if k = Tensor3 [[[0, 0, 0], [0, 0, 0], [0, 0, 0]]]
                          then Inl InvalidArgumentError
                          else Inr (TensorList5 [[[[[[2], [2]], [[2], [2]]]]]])),
           FlowWarpMultiScale = (\<lambda>src f. Inr (TensorList5 [])),
           photometric_loss_ssim = (\<lambda>synt orig. [])\<rparr>) [SmoothenessLossMultiScale_call []] [1] False (Map.empty(''depth_ms'' \<mapsto> TensorList4 [[[[[1], [1]], [[1], [1]]]]],
                    ''pose'' \<mapsto> Tensor3 [])) (Map.empty(''image'' \<mapsto> Tensor4 [[[[1], [1]], [[1], [1]]]],
                    ''intrinsic'' \<mapsto> Tensor3 [[[0, 0, 0], [0, 0, 0], [0, 0, 0]]]))
     = Inl InvalidArgumentError
   \<and> TotalLoss_call (\<lparr>split_into_source_and_target = (\<lambda>v. Inr (v, v)),
           multi_scale_like_depth = (\<lambda>t d. Inr d),
           multi_scale_like_flow = (\<lambda>t f. Inr (TensorList4 [])),
           SynthesizeMultiScale =
             (\<lambda>src k d p. if k = Tensor3 [[[0, 0, 0], [0, 0, 0], [0, 0, 0]]]
                          then Inl InvalidArgumentError
                          else Inr (TensorList5 [[[[[[2], [2]], [[2], [2]]]]]])),
           FlowWarpMultiScale = (\<lambda>src f. Inr (TensorList5 [])),
           photometric_loss_ssim = (\<lambda>synt orig. [])\<rparr>) [SmoothenessLossMultiScale_call []] [1] False (Map.empty(''depth_ms'' \<mapsto> TensorList4 [[[[[1], [1]], [[1], [1]]]]],
                    ''pose'' \<mapsto> Tensor3 [])) (Map.empty(''image'' \<mapsto> Tensor4 [[[[1], [1]], [[1], [1]]]],
                    ''intrinsic'' \<mapsto> Tensor3 [[[1, 0, 0], [0, 1, 0], [0, 0, 1]]]))
     = Inl (KeyError ''disp_ms'')"
  by (simp add: TotalLoss_call_def augmented_def augment_data_def getitem_def
      SmoothenessLossMultiScale_call_def)

text \<open>
  C3, amended: a photometric loss constructed with a method name other than \<open>L1\<close> and
  \<open>SSIM\<close> fails in the constructor with \<open>WrongInputException\<close> and a message naming the
  method. A smoothness term fails with the \<open>KeyError\<close> of \<open>disp_ms\<close> at the first
  statement of its call when the predictions lack the key, whatever the other data are; a
  flow-warp term fails with the \<open>KeyError\<close> of \<open>flow_target_ms\<close> when the predictions lack
  \<open>flow_ms\<close>. \<open>TotalLoss\<close> fails with the \<open>KeyError\<close> of \<open>depth_ms\<close> or of \<open>pose\<close>
  before any helper is called. Otherwise the augmentation, with its view synthesis, runs
  first and its exception is the one raised; when it returns, the first term that raises
  among those paired with a weight ends the call with its own exception, after the terms
  before it have returned their values: such a term is not skipped.
\<close>

theorem configuration_errors_fail:
  "(name \<noteq> ''L1'' \<and> name \<noteq> ''SSIM'' \<longrightarrow>
      PhotometricLoss_init name suffix
        = Inl (WrongInputException (''Wrong photometric loss name: '' @ name)))
   \<and> (predictions (''disp_ms'' @ suffix) = None \<longrightarrow>
        SmoothenessLossMultiScale_call suffix features predictions augm_data
          = Inl (KeyError (''disp_ms'' @ suffix)))
   \<and> (predictions (''flow_ms'' @ suffix) = None
        \<and> augment_data ext features predictions suffix = Inr augm_data \<longrightarrow>
        FlowWarpLossMultiScale_call ext \<lparr>photometric_loss = m, key_suffix = suffix\<rparr>
            features predictions augm_data
          = Inl (KeyError (''flow_target_ms'' @ suffix)))
   \<and> (predictions ''depth_ms'' = None \<longrightarrow>
        TotalLoss_call ext calc_losses loss_weights stereo predictions features
          = Inl (KeyError ''depth_ms''))
   \<and> (predictions ''depth_ms'' \<noteq> None \<and> predictions ''pose'' = None \<longrightarrow>
        TotalLoss_call ext calc_losses loss_weights stereo predictions features
          = Inl (KeyError ''pose''))
   \<and> (augmented ext stereo features predictions = Inl e \<longrightarrow>
        TotalLoss_call ext calc_losses loss_weights stereo predictions features = Inl e)
   \<and> (augmented ext stereo features predictions = Inr augm_data
        \<and> i < length calc_losses \<and> i < length loss_weights
        \<and> (\<forall>j<i. \<exists>v. (calc_losses ! j) features predictions augm_data = Inr v)
        \<and> (calc_losses ! i) features predictions augm_data = Inl e \<longrightarrow>
        TotalLoss_call ext calc_losses loss_weights stereo predictions features = Inl e)"
proof (intro conjI impI)
  assume "name \<noteq> ''L1'' \<and> name \<noteq> ''SSIM''"
  then show "PhotometricLoss_init name suffix
        = Inl (WrongInputException (''Wrong photometric loss name: '' @ name))"
    by (simp add: PhotometricLoss_init_def)
next
  assume "predictions (''disp_ms'' @ suffix) = None"
  then show "SmoothenessLossMultiScale_call suffix features predictions augm_data
          = Inl (KeyError (''disp_ms'' @ suffix))"
    by (simp add: SmoothenessLossMultiScale_call_def getitem_def)
next
  assume "predictions (''flow_ms'' @ suffix) = None
        \<and> augment_data ext features predictions suffix = Inr augm_data"
  then have "augm_data (''flow_target_ms'' @ suffix) = None"
    using augment_data_no_flow by blast
  then show "FlowWarpLossMultiScale_call ext \<lparr>photometric_loss = m, key_suffix = suffix\<rparr>
            features predictions augm_data
          = Inl (KeyError (''flow_target_ms'' @ suffix))"
    by (simp add: FlowWarpLossMultiScale_call_def getitem_def)
next
  assume "predictions ''depth_ms'' = None"
  then show "TotalLoss_call ext calc_losses loss_weights stereo predictions features
          = Inl (KeyError ''depth_ms'')"
    by (simp add: TotalLoss_call_def augmented_def augment_data_def getitem_def)
next
  assume "predictions ''depth_ms'' \<noteq> None \<and> predictions ''pose'' = None"
  then show "TotalLoss_call ext calc_losses loss_weights stereo predictions features
          = Inl (KeyError ''pose'')"
    by (auto simp: TotalLoss_call_def augmented_def augment_data_def getitem_def)
next
  assume "augmented ext stereo features predictions = Inl e"
  then show "TotalLoss_call ext calc_losses loss_weights stereo predictions features = Inl e"
    by (simp add: TotalLoss_call_def)
next
  assume a: "augmented ext stereo features predictions = Inr augm_data
        \<and> i < length calc_losses \<and> i < length loss_weights
        \<and> (\<forall>j<i. \<exists>v. (calc_losses ! j) features predictions augm_data = Inr v)
        \<and> (calc_losses ! i) features predictions augm_data = Inl e"
  have len: "i < length (zip calc_losses loss_weights)" using a by simp
  have earlier: "\<forall>j<i. \<exists>v. fst (zip calc_losses loss_weights ! j) features predictions augm_data = Inr v"
    using a by simp
  have fails: "fst (zip calc_losses loss_weights ! i) features predictions augm_data = Inl e"
    using a by simp
  have "weighted_losses (zip calc_losses loss_weights) features predictions augm_data [] = Inl e"
    using len earlier fails by (rule weighted_losses_first_failure)
  then show "TotalLoss_call ext calc_losses loss_weights stereo predictions features = Inl e"
    using a by (simp add: TotalLoss_call_def)
qed

theorem configuration_errors_fail_witness:
  "PhotometricLoss_init ''L2'' [] = Inl (WrongInputException ''Wrong photometric loss name: L2'')
   \<and> SmoothenessLossMultiScale_call [] (Map.empty(''image'' \<mapsto> Tensor4 [[[[1], [1]], [[1], [1]]]],
                    ''intrinsic'' \<mapsto> Tensor3 [[[1, 0, 0], [0, 1, 0], [0, 0, 1]]])) (Map.empty(''depth_ms'' \<mapsto> TensorList4 [[[[[1], [1]], [[1], [1]]]]],
                    ''pose'' \<mapsto> Tensor3 [])) (Map.empty(''source'' \<mapsto> Tensor4 [[[[1], [1]], [[1], [1]]]],
                    ''target'' \<mapsto> Tensor4 [[[[1], [1]], [[1], [1]]]],
                    ''target_ms'' \<mapsto> TensorList4 [[[[[1], [1]], [[1], [1]]]]],
                    ''synth_target_ms'' \<mapsto> TensorList5 [[[[[[2], [2]], [[2], [2]]]]]])) = Inl (KeyError ''disp_ms'')
   \<and> FlowWarpLossMultiScale_call (\<lparr>split_into_source_and_target = (\<lambda>v. Inr (v, v)),
           multi_scale_like_depth = (\<lambda>t d. Inr d),
           multi_scale_like_flow = (\<lambda>t f. Inr (TensorList4 [])),
           SynthesizeMultiScale =
             (\<lambda>src k d p. if k = Tensor3 [[[0, 0, 0], [0, 0, 0], [0, 0, 0]]]
                          then Inl InvalidArgumentError
                          else Inr (TensorList5 [[[[[[2], [2]], [[2], [2]]]]]])),
           FlowWarpMultiScale = (\<lambda>src f. Inr (TensorList5 [])),
           photometric_loss_ssim = (\<lambda>synt orig. [])\<rparr>) \<lparr>photometric_loss = L1, key_suffix = []\<rparr> (Map.empty(''image'' \<mapsto> Tensor4 [[[[1], [1]], [[1], [1]]]],
                    ''intrinsic'' \<mapsto> Tensor3 [[[1, 0, 0], [0, 1, 0], [0, 0, 1]]])) (Map.empty(''depth_ms'' \<mapsto> TensorList4 [[[[[1], [1]], [[1], [1]]]]],
                    ''pose'' \<mapsto> Tensor3 [])) (Map.empty(''source'' \<mapsto> Tensor4 [[[[1], [1]], [[1], [1]]]],
                    ''target'' \<mapsto> Tensor4 [[[[1], [1]], [[1], [1]]]],
                    ''target_ms'' \<mapsto> TensorList4 [[[[[1], [1]], [[1], [1]]]]],
                    ''synth_target_ms'' \<mapsto> TensorList5 [[[[[[2], [2]], [[2], [2]]]]]]))
       = Inl (KeyError ''flow_target_ms'')
   \<and> TotalLoss_call (\<lparr>split_into_source_and_target = (\<lambda>v. Inr (v, v)),
           multi_scale_like_depth = (\<lambda>t d. Inr d),
           multi_scale_like_flow = (\<lambda>t f. Inr (TensorList4 [])),
           SynthesizeMultiScale =
             (\<lambda>src k d p. if k = Tensor3 [[[0, 0, 0], [0, 0, 0], [0, 0, 0]]]
                          then Inl InvalidArgumentError
                          else Inr (TensorList5 [[[[[[2], [2]], [[2], [2]]]]]])),
           FlowWarpMultiScale = (\<lambda>src f. Inr (TensorList5 [])),
           photometric_loss_ssim = (\<lambda>synt orig. [])\<rparr>) [SmoothenessLossMultiScale_call []] [1] False Map.empty (Map.empty(''image'' \<mapsto> Tensor4 [[[[1], [1]], [[1], [1]]]],
                    ''intrinsic'' \<mapsto> Tensor3 [[[1, 0, 0], [0, 1, 0], [0, 0, 1]]]))
       = Inl (KeyError ''depth_ms'')
   \<and> TotalLoss_call (\<lparr>split_into_source_and_target = (\<lambda>v. Inr (v, v)),
           multi_scale_like_depth = (\<lambda>t d. Inr d),
           multi_scale_like_flow = (\<lambda>t f. Inr (TensorList4 [])),
           SynthesizeMultiScale =
             (\<lambda>src k d p. if k = Tensor3 [[[0, 0, 0], [0, 0, 0], [0, 0, 0]]]
                          then Inl InvalidArgumentError
                          else Inr (TensorList5 [[[[[[2], [2]], [[2], [2]]]]]])),
           FlowWarpMultiScale = (\<lambda>src f. Inr (TensorList5 [])),
           photometric_loss_ssim = (\<lambda>synt orig. [])\<rparr>) [SmoothenessLossMultiScale_call []] [1] False
         (Map.empty(''depth_ms'' \<mapsto> TensorList4 [])) (Map.empty(''image'' \<mapsto> Tensor4 [[[[1], [1]], [[1], [1]]]],
                    ''intrinsic'' \<mapsto> Tensor3 [[[1, 0, 0], [0, 1, 0], [0, 0, 1]]]))
       = Inl (KeyError ''pose'')
   \<and> TotalLoss_call (\<lparr>split_into_source_and_target = (\<lambda>v. Inr (v, v)),
           multi_scale_like_depth = (\<lambda>t d. Inr d),
           multi_scale_like_flow = (\<lambda>t f. Inr (TensorList4 [])),
           SynthesizeMultiScale =
             (\<lambda>src k d p. if k = Tensor3 [[[0, 0, 0], [0, 0, 0], [0, 0, 0]]]
                          then Inl InvalidArgumentError
                          else Inr (TensorList5 [[[[[[2], [2]], [[2], [2]]]]]])),
           FlowWarpMultiScale = (\<lambda>src f. Inr (TensorList5 [])),
           photometric_loss_ssim = (\<lambda>synt orig. [])\<rparr>) [SmoothenessLossMultiScale_call []] [1] False (Map.empty(''depth_ms'' \<mapsto> TensorList4 [[[[[1], [1]], [[1], [1]]]]],
                    ''pose'' \<mapsto> Tensor3 [])) (Map.empty(''image'' \<mapsto> Tensor4 [[[[1], [1]], [[1], [1]]]],
                    ''intrinsic'' \<mapsto> Tensor3 [[[0, 0, 0], [0, 0, 0], [0, 0, 0]]]))
       = Inl InvalidArgumentError
   \<and> TotalLoss_call (\<lparr>split_into_source_and_target = (\<lambda>v. Inr (v, v)),
           multi_scale_like_depth = (\<lambda>t d. Inr d),
           multi_scale_like_flow = (\<lambda>t f. Inr (TensorList4 [])),
           SynthesizeMultiScale =
             (\<lambda>src k d p. if k = Tensor3 [[[0, 0, 0], [0, 0, 0], [0, 0, 0]]]
                          then Inl InvalidArgumentError
                          else Inr (TensorList5 [[[[[[2], [2]], [[2], [2]]]]]])),
           FlowWarpMultiScale = (\<lambda>src f. Inr (TensorList5 [])),
           photometric_loss_ssim = (\<lambda>synt orig. [])\<rparr>)
         [PhotometricLossMultiScale_call (\<lparr>split_into_source_and_target = (\<lambda>v. Inr (v, v)),
           multi_scale_like_depth = (\<lambda>t d. Inr d),
           multi_scale_like_flow = (\<lambda>t f. Inr (TensorList4 [])),
           SynthesizeMultiScale =
             (\<lambda>src k d p. if k = Tensor3 [[[0, 0, 0], [0, 0, 0], [0, 0, 0]]]
                          then Inl InvalidArgumentError
                          else Inr (TensorList5 [[[[[[2], [2]], [[2], [2]]]]]])),
           FlowWarpMultiScale = (\<lambda>src f. Inr (TensorList5 [])),
           photometric_loss_ssim = (\<lambda>synt orig. [])\<rparr>) \<lparr>photometric_loss = L1, key_suffix = []\<rparr>,
          SmoothenessLossMultiScale_call []]
         [1, 1 / 2] False (Map.empty(''depth_ms'' \<mapsto> TensorList4 [[[[[1], [1]], [[1], [1]]]]],
                    ''pose'' \<mapsto> Tensor3 [])) (Map.empty(''image'' \<mapsto> Tensor4 [[[[1], [1]], [[1], [1]]]],
                    ''intrinsic'' \<mapsto> Tensor3 [[[1, 0, 0], [0, 1, 0], [0, 0, 1]]]))
       = Inl (KeyError ''disp_ms'')"
proof -
  define ext where "ext = (\<lparr>split_into_source_and_target = (\<lambda>v. Inr (v, v)),
           multi_scale_like_depth = (\<lambda>t d. Inr d),
           multi_scale_like_flow = (\<lambda>t f. Inr (TensorList4 [])),
           SynthesizeMultiScale =
             (\<lambda>src k d p. if k = Tensor3 [[[0, 0, 0], [0, 0, 0], [0, 0, 0]]]
                          then Inl InvalidArgumentError
                          else Inr (TensorList5 [[[[[[2], [2]], [[2], [2]]]]]])),
           FlowWarpMultiScale = (\<lambda>src f. Inr (TensorList5 [])),
           photometric_loss_ssim = (\<lambda>synt orig. [])\<rparr>)"
  define predictions where "predictions = (Map.empty(''depth_ms'' \<mapsto> TensorList4 [[[[[1], [1]], [[1], [1]]]]],
                    ''pose'' \<mapsto> Tensor3 []))"
  define features where "features = (Map.empty(''image'' \<mapsto> Tensor4 [[[[1], [1]], [[1], [1]]]],
                    ''intrinsic'' \<mapsto> Tensor3 [[[1, 0, 0], [0, 1, 0], [0, 0, 1]]]))"
  define singular where "singular = (Map.empty(''image'' \<mapsto> Tensor4 [[[[1], [1]], [[1], [1]]]],
                    ''intrinsic'' \<mapsto> Tensor3 [[[0, 0, 0], [0, 0, 0], [0, 0, 0]]]))"
  define augm_data where "augm_data = (Map.empty(''source'' \<mapsto> Tensor4 [[[[1], [1]], [[1], [1]]]],
                    ''target'' \<mapsto> Tensor4 [[[[1], [1]], [[1], [1]]]],
                    ''target_ms'' \<mapsto> TensorList4 [[[[[1], [1]], [[1], [1]]]]],
                    ''synth_target_ms'' \<mapsto> TensorList5 [[[[[[2], [2]], [[2], [2]]]]]]))"
  define photo where
    "photo = PhotometricLossMultiScale_call ext \<lparr>photometric_loss = L1, key_suffix = []\<rparr>"
  define smooth where "smooth = SmoothenessLossMultiScale_call []"
  have no_disp: "predictions (''disp_ms'' @ []) = None"
    by (simp add: predictions_def)
  have no_flow: "predictions (''flow_ms'' @ []) = None"
    by (simp add: predictions_def)
  have aug1: "augment_data ext features predictions [] = Inr augm_data"
    by (simp add: augment_data_def getitem_def ext_def predictions_def features_def augm_data_def)
  have aug: "augmented ext False features predictions = Inr augm_data"
    using aug1 by (simp add: augmented_def)
  have aug_fails: "augmented ext False singular predictions = Inl InvalidArgumentError"
    by (simp add: augmented_def augment_data_def getitem_def ext_def predictions_def singular_def)
  have photo_val: "photo features predictions augm_data = Inr 1"
    by (simp add: photo_def PhotometricLossMultiScale_call_def getitem_def augm_data_def
        photometric_sum_def apply_photometric_loss_def photometric_loss_l1_def
        photometric_error_l1_def l1_pixel_def entries4_def reduce_mean_def)
  have smooth_fails: "smooth features predictions augm_data = Inl (KeyError ''disp_ms'')"
    using no_disp by (simp add: smooth_def SmoothenessLossMultiScale_call_def getitem_def)
  have 1: "PhotometricLoss_init ''L2'' [] = Inl (WrongInputException ''Wrong photometric loss name: L2'')"
    using configuration_errors_fail[where name = "''L2''" and suffix = "[]"] by simp
  have 2: "SmoothenessLossMultiScale_call [] features predictions augm_data = Inl (KeyError ''disp_ms'')"
    using configuration_errors_fail[where suffix = "[]" and predictions = predictions
        and features = features and augm_data = augm_data] no_disp by simp
  have 3: "FlowWarpLossMultiScale_call ext \<lparr>photometric_loss = L1, key_suffix = []\<rparr>
        features predictions augm_data = Inl (KeyError ''flow_target_ms'')"
    using configuration_errors_fail[where suffix = "[]" and predictions = predictions
        and features = features and augm_data = augm_data and ext = ext and m = L1]
      no_flow aug1 by simp
  have 4: "TotalLoss_call ext [smooth] [1] False Map.empty features = Inl (KeyError ''depth_ms'')"
    using configuration_errors_fail[where predictions = Map.empty and ext = ext
        and calc_losses = "[smooth]" and loss_weights = "[1]" and stereo = False
        and features = features] by simp
  have 5: "TotalLoss_call ext [smooth] [1] False (Map.empty(''depth_ms'' \<mapsto> TensorList4 [])) features
      = Inl (KeyError ''pose'')"
    using configuration_errors_fail[where predictions = "Map.empty(''depth_ms'' \<mapsto> TensorList4 [])"
        and ext = ext and calc_losses = "[smooth]" and loss_weights = "[1]" and stereo = False
        and features = features] by simp
  have 6: "TotalLoss_call ext [smooth] [1] False predictions singular = Inl InvalidArgumentError"
    using configuration_errors_fail[where predictions = predictions and ext = ext
        and calc_losses = "[smooth]" and loss_weights = "[1]" and stereo = False
        and features = singular and e = InvalidArgumentError] aug_fails by simp
  have 7: "TotalLoss_call ext [photo, smooth] [1, 1 / 2] False predictions features
      = Inl (KeyError ''disp_ms'')"
    using configuration_errors_fail[where predictions = predictions and ext = ext
        and calc_losses = "[photo, smooth]" and loss_weights = "[1, 1 / 2]" and stereo = False
        and features = features and augm_data = augm_data and i = 1
        and e = "KeyError ''disp_ms''"] aug photo_val smooth_fails by simp
  show ?thesis
    using 1 2 3 4 5 6 7
    unfolding ext_def predictions_def features_def singular_def augm_data_def photo_def smooth_def
    by blast
qed

subsection \<open>SmoothenessLossMultiScale\<close>

lemma shape4_lengths:
  assumes "shape4 n1 n2 n3 n4 t"
  shows "length t = n1"
    and "\<And>a. a < n1 \<Longrightarrow> length (t ! a) = n2"
    and "\<And>a b. a < n1 \<Longrightarrow> b < n2 \<Longrightarrow> length (t ! a ! b) = n3"
    and "\<And>a b c. a < n1 \<Longrightarrow> b < n2 \<Longrightarrow> c < n3 \<Longrightarrow> length (t ! a ! b ! c) = n4"
proof -
  show "length t = n1" using assms by (rule shape4_length)
  have s3: "\<And>a. a < n1 \<Longrightarrow> shape3 n2 n3 n4 (t ! a)" using assms by (rule shape4_nth)
  then show "\<And>a. a < n1 \<Longrightarrow> length (t ! a) = n2" by (simp add: shape3_def)
  have s2: "\<And>a b. a < n1 \<Longrightarrow> b < n2 \<Longrightarrow> shape2 n3 n4 (t ! a ! b)"
    using shape3_nth[OF s3] by simp
  then show "\<And>a b. a < n1 \<Longrightarrow> b < n2 \<Longrightarrow> length (t ! a ! b) = n3" by (simp add: shape2_def)
  show "\<And>a b c. a < n1 \<Longrightarrow> b < n2 \<Longrightarrow> c < n3 \<Longrightarrow> length (t ! a ! b ! c) = n4"
    using shape2_nth[OF s2] by simp
qed

lemma shape4_intro:
  assumes "length t = n1"
    and "\<And>a. a < n1 \<Longrightarrow> length (t ! a) = n2"
    and "\<And>a b. a < n1 \<Longrightarrow> b < n2 \<Longrightarrow> length (t ! a ! b) = n3"
    and "\<And>a b c. a < n1 \<Longrightarrow> b < n2 \<Longrightarrow> c < n3 \<Longrightarrow> length (t ! a ! b ! c) = n4"
  shows "shape4 n1 n2 n3 n4 t"
  unfolding shape4_def shape3_def shape2_def list_all_length
  using assms by simp

lemma sum_map_entries4_index:
  assumes "shape4 n1 n2 n3 n4 t"
  shows "sum_list (map f (entries4 t)) = (\<Sum>a<n1. \<Sum>b<n2. \<Sum>c<n3. \<Sum>d<n4. f (t ! a ! b ! c ! d))"
proof -
  note l = shape4_lengths[OF assms]
  have "sum_list (map f (entries4 t))
      = sum_list (map (\<lambda>x. sum_list (map (\<lambda>y. sum_list (map (\<lambda>z. sum_list (map f z)) y)) x)) t)"
    by (simp add: entries4_def map_concat sum_list_concat_map comp_def)
  also have "\<dots> = (\<Sum>a<n1. \<Sum>b<n2. \<Sum>c<n3. \<Sum>d<n4. f (t ! a ! b ! c ! d))"
    unfolding sum_list_map_nth l(1)
    by (intro sum.cong refl) (simp_all add: l)
  finally show ?thesis .
qed

lemma gradient_x_shape:
  assumes "shape4 B H W C t"
  shows "shape4 B H (W - 1) C (gradient_x t)"
    and "\<And>b i j. b < B \<Longrightarrow> i < H \<Longrightarrow> j < W - 1 \<Longrightarrow>
           gradient_x t ! b ! i ! j = map2 (-) (t ! b ! i ! j) (t ! b ! i ! (j + 1))"
proof -
  note l = shape4_lengths[OF assms]
  show ent: "\<And>b i j. b < B \<Longrightarrow> i < H \<Longrightarrow> j < W - 1 \<Longrightarrow>
           gradient_x t ! b ! i ! j = map2 (-) (t ! b ! i ! j) (t ! b ! i ! (j + 1))"
    by (simp add: gradient_x_def l nth_butlast nth_tl)
  show "shape4 B H (W - 1) C (gradient_x t)"
  proof (rule shape4_intro)
    show "length (gradient_x t) = B" by (simp add: gradient_x_def l)
    show "\<And>a. a < B \<Longrightarrow> length (gradient_x t ! a) = H" by (simp add: gradient_x_def l)
    show "\<And>a b. a < B \<Longrightarrow> b < H \<Longrightarrow> length (gradient_x t ! a ! b) = W - 1"
      by (simp add: gradient_x_def l)
    show "\<And>a b c. a < B \<Longrightarrow> b < H \<Longrightarrow> c < W - 1 \<Longrightarrow> length (gradient_x t ! a ! b ! c) = C"
      by (simp add: ent l)
  qed
qed

lemma gradient_y_shape:
  assumes "shape4 B H W C t"
  shows "shape4 B (H - 1) W C (gradient_y t)"
    and "\<And>b i j. b < B \<Longrightarrow> i < H - 1 \<Longrightarrow> j < W \<Longrightarrow>
           gradient_y t ! b ! i ! j = map2 (-) (t ! b ! i ! j) (t ! b ! (i + 1) ! j)"
proof -
  note l = shape4_lengths[OF assms]
  show ent: "\<And>b i j. b < B \<Longrightarrow> i < H - 1 \<Longrightarrow> j < W \<Longrightarrow>
           gradient_y t ! b ! i ! j = map2 (-) (t ! b ! i ! j) (t ! b ! (i + 1) ! j)"
    by (simp add: gradient_y_def l nth_butlast nth_tl)
  show "shape4 B (H - 1) W C (gradient_y t)"
  proof (rule shape4_intro)
    show "length (gradient_y t) = B" by (simp add: gradient_y_def l)
    show "\<And>a. a < B \<Longrightarrow> length (gradient_y t ! a) = H - 1" by (simp add: gradient_y_def l)
    show "\<And>a b. a < B \<Longrightarrow> b < H - 1 \<Longrightarrow> length (gradient_y t ! a ! b) = W"
      by (simp add: gradient_y_def l nth_butlast nth_tl)
    show "\<And>a b c. a < B \<Longrightarrow> b < H - 1 \<Longrightarrow> c < W \<Longrightarrow> length (gradient_y t ! a ! b ! c) = C"
      by (simp add: ent l)
  qed
qed


lemma weighted_gradient_mean:
  assumes dg: "shape4 B H W 1 dg" and ig: "shape4 B H W C ig"
  shows "reduce_mean (map abs (entries4 (tensor_mul dg (edge_weights ig))))
           = (\<Sum>b<B. \<Sum>i<H. \<Sum>j<W.
                \<bar>dg ! b ! i ! j ! 0 * exp (- reduce_mean (map abs (ig ! b ! i ! j)))\<bar>)
             / real (B * H * W)"
proof -
  define T where "T = tensor_mul dg (edge_weights ig)"
  note ld = shape4_lengths[OF dg]
  note li = shape4_lengths[OF ig]
  have ent: "\<And>b i j. b < B \<Longrightarrow> i < H \<Longrightarrow> j < W \<Longrightarrow>
      T ! b ! i ! j = [dg ! b ! i ! j ! 0 * exp (- reduce_mean (map abs (ig ! b ! i ! j)))]"
  proof -
    fix b i j assume b: "b < B" and i: "i < H" and j: "j < W"
    have "length (dg ! b ! i ! j) = 1" using ld(4)[OF b i j] .
    then obtain d where d: "dg ! b ! i ! j = [d]"
      by (auto simp: length_Suc_conv)
    show "T ! b ! i ! j = [dg ! b ! i ! j ! 0 * exp (- reduce_mean (map abs (ig ! b ! i ! j)))]"
      using b i j d by (simp add: T_def tensor_mul_def edge_weights_def ld li)
  qed
  have shp: "shape4 B H W 1 T"
  proof (rule shape4_intro)
    show "length T = B" by (simp add: T_def tensor_mul_def edge_weights_def ld li)
    show "\<And>a. a < B \<Longrightarrow> length (T ! a) = H"
      by (simp add: T_def tensor_mul_def edge_weights_def ld li)
    show "\<And>a b. a < B \<Longrightarrow> b < H \<Longrightarrow> length (T ! a ! b) = W"
      by (simp add: T_def tensor_mul_def edge_weights_def ld li)
    show "\<And>a b c. a < B \<Longrightarrow> b < H \<Longrightarrow> c < W \<Longrightarrow> length (T ! a ! b ! c) = 1"
      by (simp add: ent)
  qed
  have "sum_list (map abs (entries4 T)) = (\<Sum>b<B. \<Sum>i<H. \<Sum>j<W. \<Sum>d<1. \<bar>T ! b ! i ! j ! d\<bar>)"
    using shp by (rule sum_map_entries4_index)
  also have "\<dots> = (\<Sum>b<B. \<Sum>i<H. \<Sum>j<W.
                \<bar>dg ! b ! i ! j ! 0 * exp (- reduce_mean (map abs (ig ! b ! i ! j)))\<bar>)"
    by (intro sum.cong refl) (simp add: ent)
  finally show ?thesis
    unfolding T_def[symmetric]
    by (simp add: reduce_mean_def length_entries4[OF shp])
qed

lemma abs_gradient_mean:
  assumes "length p = C" "length q = C"
  shows "reduce_mean (map abs (map2 (-) p q)) = (\<Sum>c<C. \<bar>p ! c - q ! c :: real\<bar>) / real C"
proof -
  have "sum_list (map abs (map2 (-) p q)) = sum_list (map2 (\<lambda>a b. \<bar>a - b\<bar>) p q)"
    by (simp add: comp_def case_prod_unfold)
  also have "\<dots> = (\<Sum>c<C. \<bar>p ! c - q ! c\<bar>)"
    using assms by (rule abs_diff_sum)
  finally show ?thesis using assms by (simp add: reduce_mean_def)
qed

lemma gradient_entry0:
  "length p = 1 \<Longrightarrow> length q = 1 \<Longrightarrow> map2 (-) p q ! 0 = p ! 0 - (q ! 0 :: real)"
  by (auto simp: length_Suc_conv)

lemma smootheness_loss_entrywise:
  assumes disp: "shape4 B H W 1 disp" and img: "shape4 B H W C img"
  shows "smootheness_loss disp img
           = 0.5 * smooth_x_entrywise disp img B H W C + 0.5 * smooth_y_entrywise disp img B H W C"
proof -
  note ld = shape4_lengths[OF disp]
  note li = shape4_lengths[OF img]
  have x: "reduce_mean (map abs (entries4 (tensor_mul (gradient_x disp) (edge_weights (gradient_x img)))))
      = smooth_x_entrywise disp img B H W C"
    unfolding weighted_gradient_mean[OF gradient_x_shape(1)[OF disp] gradient_x_shape(1)[OF img]]
      smooth_x_entrywise_def
  proof (intro arg_cong2[where f="(/)"] sum.cong refl)
    fix b i j assume "b \<in> {..<B}" "i \<in> {..<H}" "j \<in> {..<W - 1}"
    then have b: "b < B" and i: "i < H" and j: "j < W - 1" by simp_all
    have j0: "j < W" and j1: "j + 1 < W" using j by simp_all
    show "\<bar>gradient_x disp ! b ! i ! j ! 0 * exp (- reduce_mean (map abs (gradient_x img ! b ! i ! j)))\<bar>
        = \<bar>(disp ! b ! i ! j ! 0 - disp ! b ! i ! (j + 1) ! 0)
            * exp (- ((\<Sum>c<C. \<bar>img ! b ! i ! j ! c - img ! b ! i ! (j + 1) ! c\<bar>) / real C))\<bar>"
      unfolding gradient_x_shape(2)[OF disp b i j] gradient_x_shape(2)[OF img b i j]
        abs_gradient_mean[OF li(4)[OF b i j0] li(4)[OF b i j1]]
        gradient_entry0[OF ld(4)[OF b i j0] ld(4)[OF b i j1]]
      by (rule refl)
  qed
  have y: "reduce_mean (map abs (entries4 (tensor_mul (gradient_y disp) (edge_weights (gradient_y img)))))
      = smooth_y_entrywise disp img B H W C"
    unfolding weighted_gradient_mean[OF gradient_y_shape(1)[OF disp] gradient_y_shape(1)[OF img]]
      smooth_y_entrywise_def
  proof (intro arg_cong2[where f="(/)"] sum.cong refl)
    fix b i j assume "b \<in> {..<B}" "i \<in> {..<H - 1}" "j \<in> {..<W}"
    then have b: "b < B" and i: "i < H - 1" and j: "j < W" by simp_all
    have i0: "i < H" and i1: "i + 1 < H" using i by simp_all
    show "\<bar>gradient_y disp ! b ! i ! j ! 0 * exp (- reduce_mean (map abs (gradient_y img ! b ! i ! j)))\<bar>
        = \<bar>(disp ! b ! i ! j ! 0 - disp ! b ! (i + 1) ! j ! 0)
            * exp (- ((\<Sum>c<C. \<bar>img ! b ! i ! j ! c - img ! b ! (i + 1) ! j ! c\<bar>) / real C))\<bar>"
      unfolding gradient_y_shape(2)[OF disp b i j] gradient_y_shape(2)[OF img b i j]
        abs_gradient_mean[OF li(4)[OF b i0 j] li(4)[OF b i1 j]]
        gradient_entry0[OF ld(4)[OF b i0 j] ld(4)[OF b i1 j]]
      by (rule refl)
  qed
  show ?thesis
    unfolding smootheness_loss_def Let_def x y by simp
qed


lemma width_of_shape:
  "shape4 B H W C t \<Longrightarrow> 0 < B \<Longrightarrow> 0 < H \<Longrightarrow> width_of t = W"
  by (cases t; cases "hd t")
     (auto simp: width_of_def shape4_def shape3_def shape2_def)

lemma smooth_losses_values:
  "(\<forall>p \<in> set pairs. 0 < width_of (snd p)) \<Longrightarrow>
   smooth_losses orig_width pairs acc
     = Inr (acc @ map (\<lambda>(disp, img). smootheness_loss disp img
                         / (real orig_width / real (width_of img))) pairs)"
proof (induction pairs arbitrary: acc)
  case Nil
  then show ?case by simp
next
  case (Cons p pairs)
  obtain disp img where p: "p = (disp, img)" by (cases p)
  have w: "width_of img \<noteq> 0" using Cons.prems p by simp
  have "smooth_losses orig_width pairs
          (acc @ [smootheness_loss disp img / (real orig_width / real (width_of img))])
      = Inr ((acc @ [smootheness_loss disp img / (real orig_width / real (width_of img))])
             @ map (\<lambda>(disp, img). smootheness_loss disp img
                         / (real orig_width / real (width_of img))) pairs)"
    using Cons.IH Cons.prems by simp
  then show ?case using p w by (simp add: Let_def)
qed

text \<open>
  C6: for a disparity pyramid and a target-image pyramid of the same number of levels,
  level \<open>k\<close> of the shape \<open>[B, hs ! k, ws ! k, _]\<close>, the smoothness loss is the sum over
  the levels of the level's value divided by the ratio of the original width \<open>ws ! 0\<close>
  to the level's width \<open>ws ! k\<close>. The value of a level is the sum of a horizontal and a
  vertical part, each computed separately as half the mean over all neighbour pairs of the
  absolute disparity gradient times \<open>exp\<close> of minus the absolute image gradient (averaged
  over the channels).
\<close>

theorem SmoothenessLossMultiScale_scaled_sum:
  assumes disp: "predictions (''disp_ms'' @ suffix) = Some (TensorList4 disps)"
    and tgt: "augm_data (''target_ms'' @ suffix) = Some (TensorList4 targets)"
    and len: "length disps = n" "length targets = n" "0 < n"
    and shp: "\<forall>k<n. shape4 B (hs ! k) (ws ! k) 1 (disps ! k)
                  \<and> shape4 B (hs ! k) (ws ! k) C (targets ! k)
                  \<and> 1 < hs ! k \<and> 1 < ws ! k"
    and pos: "0 < B" "0 < C"
  shows "SmoothenessLossMultiScale_call suffix features predictions augm_data
           = Inr (\<Sum>k<n.
                    (0.5 * smooth_x_entrywise (disps ! k) (targets ! k) B (hs ! k) (ws ! k) C
                     + 0.5 * smooth_y_entrywise (disps ! k) (targets ! k) B (hs ! k) (ws ! k) C)
                    / (real (ws ! 0) / real (ws ! k)))"
proof -
  define level where
    "level = (\<lambda>(disp, img). smootheness_loss disp img
                 / (real (width_of (targets ! 0)) / real (width_of img)))"
  have width: "\<And>k. k < n \<Longrightarrow> width_of (targets ! k) = ws ! k"
  proof -
    fix k assume k: "k < n"
    have "shape4 B (hs ! k) (ws ! k) C (targets ! k)" and "0 < hs ! k"
      using shp k by auto
    then show "width_of (targets ! k) = ws ! k"
      using pos(1) width_of_shape by blast
  qed
  obtain t0 rest where t: "targets = t0 # rest"
    using len(2,3) by (cases targets) auto
  have t0: "t0 = targets ! 0" using t by simp
  have widths: "\<forall>p \<in> set (zip disps targets). 0 < width_of (snd p)"
  proof
    fix p assume "p \<in> set (zip disps targets)"
    then obtain k where k: "k < n" and p: "p = (disps ! k, targets ! k)"
      using len by (auto simp: in_set_zip)
    show "0 < width_of (snd p)"
      using width[OF k] shp k p by auto
  qed
  have loop: "smooth_losses (width_of t0) (zip disps targets) []
      = Inr (map level (zip disps targets))"
    using smooth_losses_values[OF widths, of "width_of t0" "[]"]
    by (simp add: level_def t0)
  have call: "SmoothenessLossMultiScale_call suffix features predictions augm_data
      = Inr (sum_list (map level (zip disps targets)))"
    using disp tgt loop
    by (simp add: SmoothenessLossMultiScale_call_def getitem_def t Let_def)
  have "sum_list (map level (zip disps targets))
      = (\<Sum>k<length (zip disps targets). level (zip disps targets ! k))"
    by (rule sum_list_map_nth)
  also have "\<dots> = (\<Sum>k<n.
                    (0.5 * smooth_x_entrywise (disps ! k) (targets ! k) B (hs ! k) (ws ! k) C
                     + 0.5 * smooth_y_entrywise (disps ! k) (targets ! k) B (hs ! k) (ws ! k) C)
                    / (real (ws ! 0) / real (ws ! k)))"
  proof (intro sum.cong)
    show "{..<length (zip disps targets)} = {..<n}" using len by simp
  next
    fix k assume "k \<in> {..<n}"
    then have k: "k < n" by simp
    have d: "shape4 B (hs ! k) (ws ! k) 1 (disps ! k)"
      and i: "shape4 B (hs ! k) (ws ! k) C (targets ! k)"
      using shp k by auto
    show "level (zip disps targets ! k)
        = (0.5 * smooth_x_entrywise (disps ! k) (targets ! k) B (hs ! k) (ws ! k) C
           + 0.5 * smooth_y_entrywise (disps ! k) (targets ! k) B (hs ! k) (ws ! k) C)
          / (real (ws ! 0) / real (ws ! k))"
      using k len width[OF k] width[OF len(3)] smootheness_loss_entrywise[OF d i]
      by (simp add: level_def)
  qed
  finally show ?thesis using call by simp
qed


theorem SmoothenessLossMultiScale_scaled_sum_witness:
  "SmoothenessLossMultiScale_call [] Map.empty
     (Map.empty(''disp_ms'' \<mapsto> TensorList4 [[[[[1], [3], [1], [3]], [[1], [3], [1], [3]]]], [[[[1], [3]], [[1], [3]]]]]))
     (Map.empty(''target_ms'' \<mapsto> TensorList4 [[[[[1], [1], [1], [1]], [[1], [1], [1], [1]]]], [[[[1], [1]], [[1], [1]]]]]))
   = Inr (3 / 2)"
proof -
  have disp: "(Map.empty(''disp_ms'' \<mapsto> TensorList4 [[[[[1], [3], [1], [3]], [[1], [3], [1], [3]]]], [[[[1], [3]], [[1], [3]]]]])) (''disp_ms'' @ [])
      = Some (TensorList4 [[[[[1], [3], [1], [3]], [[1], [3], [1], [3]]]], [[[[1], [3]], [[1], [3]]]]])"
    by simp
  have tgt: "(Map.empty(''target_ms'' \<mapsto> TensorList4 [[[[[1], [1], [1], [1]], [[1], [1], [1], [1]]]], [[[[1], [1]], [[1], [1]]]]])) (''target_ms'' @ [])
      = Some (TensorList4 [[[[[1], [1], [1], [1]], [[1], [1], [1], [1]]]], [[[[1], [1]], [[1], [1]]]]])"
    by simp
  have shp: "\<forall>k<2. shape4 1 ([2, 2] ! k) ([4, 2] ! k) 1 ([[[[[1], [3], [1], [3]], [[1], [3], [1], [3]]]], [[[[1], [3]], [[1], [3]]]] :: tensor4] ! k)
                  \<and> shape4 1 ([2, 2] ! k) ([4, 2] ! k) 1 ([[[[[1], [1], [1], [1]], [[1], [1], [1], [1]]]], [[[[1], [1]], [[1], [1]]]] :: tensor4] ! k)
                  \<and> 1 < [2, 2 :: nat] ! k \<and> 1 < [4, 2 :: nat] ! k"
    by (simp add: numeral_2_eq_2 All_less_Suc shape4_def shape3_def shape2_def)
  have two: "{..<2::nat} = {0, 1}" by auto
  have three: "{..<3::nat} = {0, 1, 2}" by auto
  have four: "{..<4::nat} = {0, 1, 2, 3}" by auto
  have total: "(\<Sum>k<2.
        (0.5 * smooth_x_entrywise ([[[[[1], [3], [1], [3]], [[1], [3], [1], [3]]]], [[[[1], [3]], [[1], [3]]]]] ! k) ([[[[[1], [1], [1], [1]], [[1], [1], [1], [1]]]], [[[[1], [1]], [[1], [1]]]]] ! k) 1 ([2, 2] ! k) ([4, 2] ! k) 1
         + 0.5 * smooth_y_entrywise ([[[[[1], [3], [1], [3]], [[1], [3], [1], [3]]]], [[[[1], [3]], [[1], [3]]]]] ! k) ([[[[[1], [1], [1], [1]], [[1], [1], [1], [1]]]], [[[[1], [1]], [[1], [1]]]]] ! k) 1 ([2, 2] ! k) ([4, 2] ! k) 1)
        / (real ([4, 2 :: nat] ! 0) / real ([4, 2 :: nat] ! k))) = 3 / 2"
    by (simp add: two three four smooth_x_entrywise_def smooth_y_entrywise_def)
  have "SmoothenessLossMultiScale_call [] Map.empty
     (Map.empty(''disp_ms'' \<mapsto> TensorList4 [[[[[1], [3], [1], [3]], [[1], [3], [1], [3]]]], [[[[1], [3]], [[1], [3]]]]]))
     (Map.empty(''target_ms'' \<mapsto> TensorList4 [[[[[1], [1], [1], [1]], [[1], [1], [1], [1]]]], [[[[1], [1]], [[1], [1]]]]]))
   = Inr (\<Sum>k<2.
        (0.5 * smooth_x_entrywise ([[[[[1], [3], [1], [3]], [[1], [3], [1], [3]]]], [[[[1], [3]], [[1], [3]]]]] ! k) ([[[[[1], [1], [1], [1]], [[1], [1], [1], [1]]]], [[[[1], [1]], [[1], [1]]]]] ! k) 1 ([2, 2] ! k) ([4, 2] ! k) 1
         + 0.5 * smooth_y_entrywise ([[[[[1], [3], [1], [3]], [[1], [3], [1], [3]]]], [[[[1], [3]], [[1], [3]]]]] ! k) ([[[[[1], [1], [1], [1]], [[1], [1], [1], [1]]]], [[[[1], [1]], [[1], [1]]]]] ! k) 1 ([2, 2] ! k) ([4, 2] ! k) 1)
        / (real ([4, 2 :: nat] ! 0) / real ([4, 2 :: nat] ! k)))"
  proof (rule SmoothenessLossMultiScale_scaled_sum[where n = 2 and hs = "[2, 2]" and ws = "[4, 2]"
          and B = 1 and C = 1 and suffix = "[]" and disps = "[[[[[1], [3], [1], [3]], [[1], [3], [1], [3]]]], [[[[1], [3]], [[1], [3]]]]]" and targets = "[[[[[1], [1], [1], [1]], [[1], [1], [1], [1]]]], [[[[1], [1]], [[1], [1]]]]]"])
    show "(Map.empty(''disp_ms'' \<mapsto> TensorList4 [[[[[1], [3], [1], [3]], [[1], [3], [1], [3]]]], [[[[1], [3]], [[1], [3]]]]])) (''disp_ms'' @ [])
      = Some (TensorList4 [[[[[1], [3], [1], [3]], [[1], [3], [1], [3]]]], [[[[1], [3]], [[1], [3]]]]])"
      by (rule disp)
    show "(Map.empty(''target_ms'' \<mapsto> TensorList4 [[[[[1], [1], [1], [1]], [[1], [1], [1], [1]]]], [[[[1], [1]], [[1], [1]]]]])) (''target_ms'' @ [])
      = Some (TensorList4 [[[[[1], [1], [1], [1]], [[1], [1], [1], [1]]]], [[[[1], [1]], [[1], [1]]]]])"
      by (rule tgt)
    show "\<forall>k<2. shape4 1 ([2, 2] ! k) ([4, 2] ! k) 1 ([[[[[1], [3], [1], [3]], [[1], [3], [1], [3]]]], [[[[1], [3]], [[1], [3]]]] :: tensor4] ! k)
                  \<and> shape4 1 ([2, 2] ! k) ([4, 2] ! k) 1 ([[[[[1], [1], [1], [1]], [[1], [1], [1], [1]]]], [[[[1], [1]], [[1], [1]]]] :: tensor4] ! k)
                  \<and> 1 < [2, 2 :: nat] ! k \<and> 1 < [4, 2 :: nat] ! k"
      by (rule shp)
  qed simp_all
  then show ?thesis unfolding total .
qed

section \<open>Properties of model/build_model/model_wrappers.py\<close>

lemma load_weights_loop_result:
  assumes "\<forall>p \<in> set models. \<forall>snapshot.
             fs (ckpt_file_of ckpt_dir_path (fst p) suffix) = Some snapshot \<longrightarrow>
             (\<exists>loaded. keras_load (snd p) snapshot = Inr loaded)"
  shows "\<exists>models' printed'.
      load_weights_loop keras_load fs ckpt_dir_path suffix models printed = Inr (models', printed')
    \<and> map fst models' = map fst models
    \<and> set printed \<subseteq> set printed'
    \<and> (\<forall>i < length models.
          (case fs (ckpt_file_of ckpt_dir_path (fst (models ! i)) suffix) of
             Some snapshot \<Rightarrow> keras_load (snd (models ! i)) snapshot = Inr (snd (models' ! i))
           | None \<Rightarrow>
               snd (models' ! i) = snd (models ! i)
             \<and> (''===== Failed to load weights of '' @ fst (models ! i) @ '', train from scratch ...'')
                 \<in> set printed'))"
  using assms
proof (induction models arbitrary: printed)
  case Nil
  then show ?case by simp
next
  case (Cons p models)
  obtain netname model where p: "p = (netname, model)" by (cases p)
  define ckpt_file where "ckpt_file = ckpt_file_of ckpt_dir_path netname suffix"
  have rest_ok: "\<forall>p \<in> set models. \<forall>snapshot.
             fs (ckpt_file_of ckpt_dir_path (fst p) suffix) = Some snapshot \<longrightarrow>
             (\<exists>loaded. keras_load (snd p) snapshot = Inr loaded)"
    using Cons.prems by simp
  show ?case
  proof (cases "fs ckpt_file")
    case None
    define printed1 where "printed1 = printed @
        [''===== Failed to load weights of '' @ netname @ '', train from scratch ...'',
         ''      tried to load file: '' @ ckpt_file]"
    from Cons.IH[OF rest_ok, of printed1]
    obtain rest' printed' where
      run: "load_weights_loop keras_load fs ckpt_dir_path suffix models printed1 = Inr (rest', printed')"
      and names: "map fst rest' = map fst models"
      and sub: "set printed1 \<subseteq> set printed'"
      and each: "\<forall>i < length models.
          (case fs (ckpt_file_of ckpt_dir_path (fst (models ! i)) suffix) of
             Some snapshot \<Rightarrow> keras_load (snd (models ! i)) snapshot = Inr (snd (rest' ! i))
           | None \<Rightarrow>
               snd (rest' ! i) = snd (models ! i)
             \<and> (''===== Failed to load weights of '' @ fst (models ! i) @ '', train from scratch ...'')
                 \<in> set printed')"
      by blast
    have call: "load_weights_loop keras_load fs ckpt_dir_path suffix (p # models) printed
        = Inr ((netname, model) # rest', printed')"
      using None run by (simp add: p ckpt_file_def[symmetric] printed1_def)
    have msg: "(''===== Failed to load weights of '' @ netname @ '', train from scratch ...'')
        \<in> set printed'"
      using sub by (auto simp: printed1_def)
    have sub': "set printed \<subseteq> set printed'"
      using sub by (auto simp: printed1_def)
    have all: "\<forall>i < length (p # models).
          (case fs (ckpt_file_of ckpt_dir_path (fst ((p # models) ! i)) suffix) of
             Some snapshot \<Rightarrow> keras_load (snd ((p # models) ! i)) snapshot
                = Inr (snd (((netname, model) # rest') ! i))
           | None \<Rightarrow>
               snd (((netname, model) # rest') ! i) = snd ((p # models) ! i)
             \<and> (''===== Failed to load weights of '' @ fst ((p # models) ! i) @ '', train from scratch ...'')
                 \<in> set printed')"
    proof (intro allI impI)
      fix i assume "i < length (p # models)"
      then show "(case fs (ckpt_file_of ckpt_dir_path (fst ((p # models) ! i)) suffix) of
             Some snapshot \<Rightarrow> keras_load (snd ((p # models) ! i)) snapshot
                = Inr (snd (((netname, model) # rest') ! i))
           | None \<Rightarrow>
               snd (((netname, model) # rest') ! i) = snd ((p # models) ! i)
             \<and> (''===== Failed to load weights of '' @ fst ((p # models) ! i) @ '', train from scratch ...'')
                 \<in> set printed')"
        using None msg each by (cases i) (auto simp: p ckpt_file_def[symmetric] split: option.splits)
    qed
    show ?thesis
      using call names sub' all by (simp add: p)
  next
    case (Some snapshot)
    obtain loaded where ld: "keras_load model snapshot = Inr loaded"
      using Cons.prems Some by (auto simp: p ckpt_file_def)
    define printed1 where "printed1 = printed @
        [''===== '' @ netname @ '' weights loaded from '' @ ckpt_file]"
    from Cons.IH[OF rest_ok, of printed1]
    obtain rest' printed' where
      run: "load_weights_loop keras_load fs ckpt_dir_path suffix models printed1 = Inr (rest', printed')"
      and names: "map fst rest' = map fst models"
      and sub: "set printed1 \<subseteq> set printed'"
      and each: "\<forall>i < length models.
          (case fs (ckpt_file_of ckpt_dir_path (fst (models ! i)) suffix) of
             Some snapshot \<Rightarrow> keras_load (snd (models ! i)) snapshot = Inr (snd (rest' ! i))
           | None \<Rightarrow>
               snd (rest' ! i) = snd (models ! i)
             \<and> (''===== Failed to load weights of '' @ fst (models ! i) @ '', train from scratch ...'')
                 \<in> set printed')"
      by blast
    have call: "load_weights_loop keras_load fs ckpt_dir_path suffix (p # models) printed
        = Inr ((netname, loaded) # rest', printed')"
      using Some ld run by (simp add: p ckpt_file_def[symmetric] printed1_def)
    have sub': "set printed \<subseteq> set printed'"
      using sub by (auto simp: printed1_def)
    have all: "\<forall>i < length (p # models).
          (case fs (ckpt_file_of ckpt_dir_path (fst ((p # models) ! i)) suffix) of
             Some snapshot \<Rightarrow> keras_load (snd ((p # models) ! i)) snapshot
                = Inr (snd (((netname, loaded) # rest') ! i))
           | None \<Rightarrow>
               snd (((netname, loaded) # rest') ! i) = snd ((p # models) ! i)
             \<and> (''===== Failed to load weights of '' @ fst ((p # models) ! i) @ '', train from scratch ...'')
                 \<in> set printed')"
    proof (intro allI impI)
      fix i assume "i < length (p # models)"
      then show "(case fs (ckpt_file_of ckpt_dir_path (fst ((p # models) ! i)) suffix) of
             Some snapshot \<Rightarrow> keras_load (snd ((p # models) ! i)) snapshot
                = Inr (snd (((netname, loaded) # rest') ! i))
           | None \<Rightarrow>
               snd (((netname, loaded) # rest') ! i) = snd ((p # models) ! i)
             \<and> (''===== Failed to load weights of '' @ fst ((p # models) ! i) @ '', train from scratch ...'')
                 \<in> set printed')"
        using Some ld each by (cases i) (auto simp: p ckpt_file_def[symmetric] split: option.splits)
    qed
    show ?thesis
      using call names sub' all by (simp add: p)
  qed
qed

text \<open>
  C8: for every checkpoint directory and suffix, \<open>load_weights\<close> returns normally
  provided the Keras load of every snapshot file that exists succeeds; a sub-network
  whose file exists gets the parameters loaded from it, and a sub-network whose file is
  missing keeps its parameters, with the diagnostic printed. When every file is missing
  the models are returned unchanged, so a missing snapshot file is never fatal.
\<close>

theorem load_weights_tolerates_missing_files:
  assumes "\<forall>p \<in> set models. \<forall>snapshot.
             fs (ckpt_file_of ckpt_dir_path (fst p) suffix) = Some snapshot \<longrightarrow>
             (\<exists>loaded. keras_load (snd p) snapshot = Inr loaded)"
  shows "\<exists>models' printed.
      load_weights keras_load fs models ckpt_dir_path suffix = Inr (models', printed)
    \<and> map fst models' = map fst models
    \<and> (\<forall>i < length models.
          (case fs (ckpt_file_of ckpt_dir_path (fst (models ! i)) suffix) of
             Some snapshot \<Rightarrow> keras_load (snd (models ! i)) snapshot = Inr (snd (models' ! i))
           | None \<Rightarrow>
               snd (models' ! i) = snd (models ! i)
             \<and> (''===== Failed to load weights of '' @ fst (models ! i) @ '', train from scratch ...'')
                 \<in> set printed))
    \<and> ((\<forall>p \<in> set models. fs (ckpt_file_of ckpt_dir_path (fst p) suffix) = None) \<longrightarrow>
          models' = models)"
proof -
  from load_weights_loop_result[OF assms, of "[]"]
  obtain models' printed where
    run: "load_weights keras_load fs models ckpt_dir_path suffix = Inr (models', printed)"
    and names: "map fst models' = map fst models"
    and each: "\<forall>i < length models.
          (case fs (ckpt_file_of ckpt_dir_path (fst (models ! i)) suffix) of
             Some snapshot \<Rightarrow> keras_load (snd (models ! i)) snapshot = Inr (snd (models' ! i))
           | None \<Rightarrow>
               snd (models' ! i) = snd (models ! i)
             \<and> (''===== Failed to load weights of '' @ fst (models ! i) @ '', train from scratch ...'')
                 \<in> set printed)"
    unfolding load_weights_def by blast
  have same: "models' = models"
    if none: "\<forall>p \<in> set models. fs (ckpt_file_of ckpt_dir_path (fst p) suffix) = None"
  proof (rule nth_equalityI)
    show len: "length models' = length models"
      using names by (metis length_map)
    fix i assume "i < length models'"
    then have i: "i < length models" using len by simp
    have "fs (ckpt_file_of ckpt_dir_path (fst (models ! i)) suffix) = None"
      using none i by simp
    then have "snd (models' ! i) = snd (models ! i)"
      using each i by auto
    moreover have "fst (models' ! i) = fst (models ! i)"
      using names i len by (metis nth_map)
    ultimately show "models' ! i = models ! i"
      by (simp add: prod_eq_iff)
  qed
  show ?thesis
    using run names each same by blast
qed

theorem load_weights_tolerates_missing_files_witness:
  "load_weights (\<lambda>model snapshot. Inr snapshot)
     (Map.empty(''ckpt/depthnet_ep10.h5'' \<mapsto> (7 :: nat)))
     [(''depthnet'', 1), (''posenet'', 2)] ''ckpt'' ''ep10''
   = Inr ([(''depthnet'', 7), (''posenet'', 2)],
          [''===== depthnet weights loaded from ckpt/depthnet_ep10.h5'',
           ''===== Failed to load weights of posenet, train from scratch ...'',
           ''      tried to load file: ckpt/posenet_ep10.h5''])"
proof -
  have ok: "\<forall>p \<in> set [(''depthnet'', 1 :: nat), (''posenet'', 2)]. \<forall>snapshot.
      (Map.empty(''ckpt/depthnet_ep10.h5'' \<mapsto> (7 :: nat))) (ckpt_file_of ''ckpt'' (fst p) ''ep10'')
        = Some snapshot \<longrightarrow>
      (\<exists>loaded. (\<lambda>model snapshot. Inr snapshot :: error + nat) (snd p) snapshot = Inr loaded)"
    by simp
  from load_weights_tolerates_missing_files[OF ok]
  show ?thesis
    by (simp add: load_weights_def ckpt_file_of_def op_join_def)
qed

section \<open>Properties of the pose conversion\<close>











end
